theory Spec2Isabelle
  imports Complex_Main
begin

section \<open>Python values and exceptions\<close>

text \<open>
  The scoring engines work on snapshot dictionaries whose values are \<open>None\<close>, booleans,
  integers, floats and strings; the options-flow and sentiment engines also bind the
  built-in function \<open>abs\<close> under a name. Floats are idealised as reals (no rounding,
  no infinities, no NaN); Python's unbounded integers are \<open>int\<close>.
\<close>

datatype pyval =
    PNone
  | PBool bool
  | PInt int
  | PFloat real
  | PStr string
  | PBuiltin string

datatype pyexn =
    ValueError
  | TypeError
  | ZeroDivisionError
  | SyntaxError
  | NameError
  | OtherException string

type_synonym env = "(string \<times> pyval) list"

text \<open>Truth value of an object, as \<open>bool(x)\<close>, \<open>not x\<close> and \<open>if x\<close> compute it.\<close>

fun truthy :: "pyval \<Rightarrow> bool" where
  "truthy PNone = False"
| "truthy (PBool b) = b"
| "truthy (PInt i) = (i \<noteq> 0)"
| "truthy (PFloat r) = (r \<noteq> 0)"
| "truthy (PStr s) = (s \<noteq> [])"
| "truthy (PBuiltin f) = True"

text \<open>Numbers: \<open>bool\<close> is a subclass of \<open>int\<close>, so booleans take part in arithmetic.\<close>

datatype num = NInt int | NFloat real

fun num_of :: "pyval \<Rightarrow> num option" where
  "num_of (PBool b) = Some (NInt (if b then 1 else 0))"
| "num_of (PInt i) = Some (NInt i)"
| "num_of (PFloat r) = Some (NFloat r)"
| "num_of PNone = None"
| "num_of (PStr s) = None"
| "num_of (PBuiltin f) = None"

fun to_real :: "num \<Rightarrow> real" where
  "to_real (NInt i) = real_of_int i"
| "to_real (NFloat r) = r"

fun arith :: "(int \<Rightarrow> int \<Rightarrow> int) \<Rightarrow> (real \<Rightarrow> real \<Rightarrow> real) \<Rightarrow> num \<Rightarrow> num \<Rightarrow> pyval" where
  "arith f g (NInt a) (NInt b) = PInt (f a b)"
| "arith f g x y = PFloat (g (to_real x) (to_real y))"

section \<open>The syntax tree of a condition\<close>

text \<open>
  \<open>safe_eval\<close> walks the tree that \<open>ast.parse(expr, mode='eval')\<close> returns. The node
  types it names are modelled one by one; the expression nodes it does not name are
  kept as nodes of their own, because the evaluator has to reject them.
\<close>

datatype binop = Add | Sub | Mult | Div | Mod | PowOp | FloorDiv | MatMult
  | LShift | RShift | BitOr | BitXor | BitAnd

datatype boolop = And | Or

datatype cmpop = Eq | NotEq | Gt | GtE | Lt | LtE | Is | IsNot | In | NotIn

datatype unaryop = Invert | NotOp | UAdd | USub

datatype node =
    Constant pyval
  | Name string
  | BinOp node binop node
  | BoolOp boolop "node list"
  | Compare node "cmpop list" "node list"
  | UnaryOp unaryop node
  | Call node "node list"
  | Attribute node string
  | Subscript node node
  | IfExp node node node
  | ListComp node "node list"
  | NamedExpr node node
  | OtherNode string "node list"

text \<open>
  What the interpreter contributes and the repository does not define: the parser, the
  \<open>%\<close> formatting of a string, whether two equal numbers or strings are one object,
  and the built-in \<open>eval\<close> that two engines still call. Every theorem below holds for
  any such interpreter.
\<close>

record interp =
  parse :: "string \<Rightarrow> pyexn + node"
  str_format :: "string \<Rightarrow> pyval \<Rightarrow> pyexn + pyval"
  same_object :: "pyval \<Rightarrow> pyval \<Rightarrow> bool"
  builtin_eval :: "string \<Rightarrow> env \<Rightarrow> pyexn + pyval"

section \<open>The operator table of safe\_eval\<close>

definition op_add :: "pyval \<Rightarrow> pyval \<Rightarrow> pyexn + pyval" where
  "op_add a b =
     (case (num_of a, num_of b) of
        (Some x, Some y) \<Rightarrow> Inr (arith (+) (+) x y)
      | _ \<Rightarrow> (case (a, b) of
                 (PStr s, PStr t) \<Rightarrow> Inr (PStr (s @ t))
               | _ \<Rightarrow> Inl TypeError))"

definition op_sub :: "pyval \<Rightarrow> pyval \<Rightarrow> pyexn + pyval" where
  "op_sub a b =
     (case (num_of a, num_of b) of
        (Some x, Some y) \<Rightarrow> Inr (arith (-) (-) x y)
      | _ \<Rightarrow> Inl TypeError)"

definition str_repeat :: "string \<Rightarrow> int \<Rightarrow> string" where
  "str_repeat s n = concat (replicate (nat n) s)"

definition op_mul :: "pyval \<Rightarrow> pyval \<Rightarrow> pyexn + pyval" where
  "op_mul a b =
     (case (num_of a, num_of b) of
        (Some x, Some y) \<Rightarrow> Inr (arith (*) (*) x y)
      | (None, Some (NInt n)) \<Rightarrow>
          (case a of PStr s \<Rightarrow> Inr (PStr (str_repeat s n)) | _ \<Rightarrow> Inl TypeError)
      | (Some (NInt n), None) \<Rightarrow>
          (case b of PStr s \<Rightarrow> Inr (PStr (str_repeat s n)) | _ \<Rightarrow> Inl TypeError)
      | _ \<Rightarrow> Inl TypeError)"

definition op_truediv :: "pyval \<Rightarrow> pyval \<Rightarrow> pyexn + pyval" where
  "op_truediv a b =
     (case (num_of a, num_of b) of
        (Some x, Some y) \<Rightarrow>
          (if to_real y = 0 then Inl ZeroDivisionError
           else Inr (PFloat (to_real x / to_real y)))
      | _ \<Rightarrow> Inl TypeError)"

definition float_mod :: "real \<Rightarrow> real \<Rightarrow> real" where
  "float_mod x y = x - y * real_of_int \<lfloor>x / y\<rfloor>"

definition op_mod :: "interp \<Rightarrow> pyval \<Rightarrow> pyval \<Rightarrow> pyexn + pyval" where
  "op_mod ip a b =
     (case a of
        PStr s \<Rightarrow> str_format ip s b
      | _ \<Rightarrow>
         (case (num_of a, num_of b) of
            (Some x, Some y) \<Rightarrow>
              (if to_real y = 0 then Inl ZeroDivisionError
               else Inr (arith (mod) float_mod x y))
          | _ \<Rightarrow> Inl TypeError))"

definition op_eq :: "pyval \<Rightarrow> pyval \<Rightarrow> bool" where
  "op_eq a b =
     (case (num_of a, num_of b) of
        (Some x, Some y) \<Rightarrow> to_real x = to_real y
      | (None, None) \<Rightarrow> a = b
      | _ \<Rightarrow> False)"

fun str_lt :: "string \<Rightarrow> string \<Rightarrow> bool" where
  "str_lt [] [] = False"
| "str_lt [] (d # ds) = True"
| "str_lt (c # cs) [] = False"
| "str_lt (c # cs) (d # ds) =
     ((of_char c :: nat) < of_char d \<or> (c = d \<and> str_lt cs ds))"

text \<open>An ordering comparison; \<open>strict\<close> and \<open>flip\<close> select among the four operators \<open>Lt\<close>, \<open>LtE\<close>, \<open>Gt\<close>, \<open>GtE\<close>.\<close>

definition op_order :: "bool \<Rightarrow> bool \<Rightarrow> pyval \<Rightarrow> pyval \<Rightarrow> pyexn + pyval" where
  "op_order strict flip a0 b0 =
     (let a = (if flip then b0 else a0); b = (if flip then a0 else b0) in
      case (num_of a, num_of b) of
        (Some x, Some y) \<Rightarrow>
          Inr (PBool (if strict then to_real x < to_real y else to_real x \<le> to_real y))
      | _ \<Rightarrow> (case (a, b) of
                 (PStr s, PStr t) \<Rightarrow>
                   Inr (PBool (if strict then str_lt s t else (s = t \<or> str_lt s t)))
               | _ \<Rightarrow> Inl TypeError))"

text \<open>
  \<open>a is b\<close>: \<open>None\<close>, \<open>True\<close>, \<open>False\<close> and a built-in function are single objects;
  for two equal numbers or strings the answer is the interpreter's.
\<close>

definition op_is :: "interp \<Rightarrow> pyval \<Rightarrow> pyval \<Rightarrow> bool" where
  "op_is ip a b =
     (case (a, b) of
        (PNone, PNone) \<Rightarrow> True
      | (PBool x, PBool y) \<Rightarrow> x = y
      | (PBuiltin f, PBuiltin g) \<Rightarrow> f = g
      | (PInt x, PInt y) \<Rightarrow> x = y \<and> same_object ip a b
      | (PFloat x, PFloat y) \<Rightarrow> x = y \<and> same_object ip a b
      | (PStr x, PStr y) \<Rightarrow> x = y \<and> same_object ip a b
      | _ \<Rightarrow> False)"

text \<open>
  \<open>OPS\<close>, split by the kind of node that looks an operator up. \<open>None\<close> is
  \<open>op_type not in OPS\<close>.
\<close>

fun OPS_bin :: "interp \<Rightarrow> binop \<Rightarrow> (pyval \<Rightarrow> pyval \<Rightarrow> pyexn + pyval) option" where
  "OPS_bin ip Add = Some op_add"
| "OPS_bin ip Sub = Some op_sub"
| "OPS_bin ip Mult = Some op_mul"
| "OPS_bin ip Div = Some op_truediv"
| "OPS_bin ip Mod = Some (op_mod ip)"
| "OPS_bin ip other = None"

fun OPS_cmp :: "interp \<Rightarrow> cmpop \<Rightarrow> (pyval \<Rightarrow> pyval \<Rightarrow> pyexn + pyval) option" where
  "OPS_cmp ip Eq = Some (\<lambda>a b. Inr (PBool (op_eq a b)))"
| "OPS_cmp ip NotEq = Some (\<lambda>a b. Inr (PBool (\<not> op_eq a b)))"
| "OPS_cmp ip Gt = Some (op_order True True)"
| "OPS_cmp ip GtE = Some (op_order False True)"
| "OPS_cmp ip Lt = Some (op_order True False)"
| "OPS_cmp ip LtE = Some (op_order False False)"
| "OPS_cmp ip Is = Some (\<lambda>a b. Inr (PBool (op_is ip a b)))"
| "OPS_cmp ip IsNot = Some (\<lambda>a b. Inr (PBool (\<not> op_is ip a b)))"
| "OPS_cmp ip In = None"
| "OPS_cmp ip NotIn = None"

fun OPS_bool :: "boolop \<Rightarrow> pyval \<Rightarrow> pyval \<Rightarrow> pyval" where
  "OPS_bool And a b = (if truthy a then b else a)"
| "OPS_bool Or a b = (if truthy a then a else b)"

section \<open>safe\_eval\<close>

text \<open>
  The inner function \<open>_eval\<close> of \<open>safe_eval\<close>. The loop of the \<open>BoolOp\<close> case is
  \<open>eval_values\<close>, the loop of the \<open>Compare\<close> case is \<open>eval_compare\<close>. Every
  \<open>raise\<close> of the source and every exception of an operator is an \<open>Inl\<close>.
\<close>

fun eval_node :: "interp \<Rightarrow> env \<Rightarrow> node \<Rightarrow> pyexn + pyval"
  and eval_values :: "interp \<Rightarrow> env \<Rightarrow> boolop \<Rightarrow> pyval \<Rightarrow> node list \<Rightarrow> pyexn + pyval"
  and eval_compare :: "interp \<Rightarrow> env \<Rightarrow> pyval \<Rightarrow> cmpop list \<Rightarrow> node list \<Rightarrow> pyexn + pyval"
where
  "eval_node ip vars (Constant v) = Inr v"
| "eval_node ip vars (Name ident) =
     (case map_of vars ident of
        Some v \<Rightarrow> Inr v
      | None \<Rightarrow> Inl ValueError)"
| "eval_node ip vars (BinOp l bop r) =
     (case OPS_bin ip bop of
        None \<Rightarrow> Inl ValueError
      | Some f \<Rightarrow>
         (case eval_node ip vars l of
            Inl e \<Rightarrow> Inl e
          | Inr a \<Rightarrow>
             (case eval_node ip vars r of
                Inl e \<Rightarrow> Inl e
              | Inr b \<Rightarrow> f a b)))"
| "eval_node ip vars (BoolOp bop vs) =
     (case vs of
        [] \<Rightarrow> Inl ValueError
      | v # rest \<Rightarrow>
         (if rest = [] then Inl ValueError
          else (case eval_node ip vars v of
                  Inl e \<Rightarrow> Inl e
                | Inr left \<Rightarrow> eval_values ip vars bop left rest)))"
| "eval_node ip vars (Compare l ops comparators) =
     (if length ops \<noteq> length comparators then Inl ValueError
      else (case eval_node ip vars l of
              Inl e \<Rightarrow> Inl e
            | Inr left \<Rightarrow> eval_compare ip vars left ops comparators))"
| "eval_node ip vars (UnaryOp uop x) = Inl ValueError"
| "eval_node ip vars (Call f args) = Inl ValueError"
| "eval_node ip vars (Attribute x attr) = Inl ValueError"
| "eval_node ip vars (Subscript x i) = Inl ValueError"
| "eval_node ip vars (IfExp c a b) = Inl ValueError"
| "eval_node ip vars (ListComp x gens) = Inl ValueError"
| "eval_node ip vars (NamedExpr x y) = Inl ValueError"
| "eval_node ip vars (OtherNode kind xs) = Inl ValueError"
| "eval_values ip vars bop left [] = Inr left"
| "eval_values ip vars bop left (v # rest) =
     (case eval_node ip vars v of
        Inl e \<Rightarrow> Inl e
      | Inr x \<Rightarrow> eval_values ip vars bop (OPS_bool bop left x) rest)"
| "eval_compare ip vars left [] cs = Inr (PBool True)"
| "eval_compare ip vars left (cop # ops) [] = Inr (PBool True)"
| "eval_compare ip vars left (cop # ops) (c # cs) =
     (case OPS_cmp ip cop of
        None \<Rightarrow> Inl ValueError
      | Some oper \<Rightarrow>
         (case eval_node ip vars c of
            Inl e \<Rightarrow> Inl e
          | Inr right \<Rightarrow>
             (case oper left right of
                Inl e \<Rightarrow> Inl e
              | Inr res \<Rightarrow>
                 (if \<not> truthy res then Inr (PBool False)
                  else eval_compare ip vars right ops cs))))"

text \<open>\<open>str.strip()\<close> on the ASCII white space characters.\<close>

definition is_space :: "char \<Rightarrow> bool" where
  "is_space c = (let n = (of_char c :: nat) in n = 32 \<or> (9 \<le> n \<and> n \<le> 13) \<or> (28 \<le> n \<and> n \<le> 31))"

definition strip :: "string \<Rightarrow> string" where
  "strip s = rev (dropWhile is_space (rev (dropWhile is_space s)))"

text \<open>
  \<open>safe_eval(expr, variables)\<close>: only a \<open>SyntaxError\<close> of the parser is turned into a
  \<open>ValueError\<close> there; every exception of the evaluation is.
\<close>

definition safe_eval :: "interp \<Rightarrow> string \<Rightarrow> env \<Rightarrow> pyexn + bool" where
  "safe_eval ip expr variables =
     (if expr = [] \<or> strip expr = [] then Inr False
      else (case parse ip (strip expr) of
              Inl SyntaxError \<Rightarrow> Inl ValueError
            | Inl e \<Rightarrow> Inl e
            | Inr tree \<Rightarrow>
               (case eval_node ip variables tree of
                  Inl e \<Rightarrow> Inl ValueError
                | Inr result \<Rightarrow> Inr (truthy result))))"

section \<open>Rule tables\<close>

text \<open>
  A state of a rule table, as the dictionaries of the rulebooks hold it. \<open>None\<close> in a
  field is a key that the dictionary lacks, so each engine applies its own default of
  \<open>dict.get\<close>. A score range is a list of two numbers, or (the technical engine
  admits it) a single number.
\<close>

datatype score_cfg = ScorePair real real | ScoreScalar real

record state_rule =
  condition :: "string option"
  score_range :: "score_cfg option"
  group :: "string option"

type_synonym states_def = "(string \<times> state_rule) list"

text \<open>\<open>low, high = score_range\<close> raises on anything but a sequence of two.\<close>

fun unpack_range :: "score_cfg \<Rightarrow> pyexn + (real \<times> real)" where
  "unpack_range (ScorePair low high) = Inr (low, high)"
| "unpack_range (ScoreScalar x) = Inl TypeError"

section \<open>Options flow scoring engine\<close>

text \<open>\<open>OptionsFlowScoringEngine._safe_eval\<close>: the boundary that absorbs every exception.\<close>

definition OptionsFlow_safe_eval :: "interp \<Rightarrow> string \<Rightarrow> env \<Rightarrow> bool" where
  "OptionsFlow_safe_eval ip cond variables =
     (if cond = [] \<or> strip cond = [] then False
      else (case safe_eval ip cond variables of
              Inl e \<Rightarrow> False
            | Inr b \<Rightarrow> b))"

record options_rulebook =
  of_score_scale :: "real \<times> real"
  of_groups :: "(string \<times> real option) list"
  of_minor_states :: states_def

record state_detail =
  sd_condition :: string
  sd_avg_score :: real
  sd_weighted :: real
  sd_base_weight :: real
  sd_group :: "string option"

record options_result =
  of_minor_score :: real
  final_options_flow_score :: real
  of_matched_states :: "string list"
  of_state_details :: "(string \<times> state_detail) list"

text \<open>
  The names visible to a condition: the snapshot, then \<open>abs\<close>, \<open>True\<close>, \<open>False\<close>
  and \<open>None\<close>, which \<open>dict.update\<close> writes over a snapshot key of the same name
  (\<open>map_of\<close> returns the first entry).
\<close>

definition allowed_names :: "env \<Rightarrow> env" where
  "allowed_names options_snapshot =
     [(''abs'', PBuiltin ''abs''), (''True'', PBool True), (''False'', PBool False),
      (''None'', PNone)] @ options_snapshot"

definition group_weight :: "(string \<times> real option) list \<Rightarrow> string option \<Rightarrow> real" where
  "group_weight groups_meta group_name =
     (case group_name of
        None \<Rightarrow> 1
      | Some g \<Rightarrow>
         (if g = [] then 1
          else (case map_of groups_meta g of
                  None \<Rightarrow> 1
                | Some None \<Rightarrow> 1
                | Some (Some w) \<Rightarrow> w)))"

text \<open>
  The loop over \<open>minor_tf.items()\<close>. The accumulator is the triple of
  \<open>matched_states\<close>, \<open>state_details\<close> and \<open>minor_score_accumulator\<close>.
\<close>

fun options_loop :: "interp \<Rightarrow> (string \<times> real option) list \<Rightarrow> env \<Rightarrow> states_def \<Rightarrow>
    string list \<times> (string \<times> state_detail) list \<times> real \<Rightarrow>
    pyexn + (string list \<times> (string \<times> state_detail) list \<times> real)" where
  "options_loop ip groups_meta names [] acc = Inr acc"
| "options_loop ip groups_meta names ((state_name, state_data) # rest) (matched, details, accum) =
     (let cond = (case condition state_data of None \<Rightarrow> [] | Some c \<Rightarrow> c);
          rng = (case score_range state_data of None \<Rightarrow> ScorePair 0 0 | Some r \<Rightarrow> r);
          group_name = group state_data
      in if OptionsFlow_safe_eval ip cond names then
           (case unpack_range rng of
              Inl e \<Rightarrow> Inl e
            | Inr (raw_min, raw_max) \<Rightarrow>
               (let avg_score = (raw_min + raw_max) / 2;
                    base_weight = group_weight groups_meta group_name;
                    weighted_score = avg_score * base_weight
                in options_loop ip groups_meta names rest
                     (matched @ [state_name],
                      details @ [(state_name,
                         \<lparr>sd_condition = cond, sd_avg_score = avg_score,
                          sd_weighted = weighted_score, sd_base_weight = base_weight,
                          sd_group = group_name\<rparr>)],
                      accum + weighted_score)))
         else options_loop ip groups_meta names rest (matched, details, accum))"

text \<open>\<open>OptionsFlowScoringEngine.score\<close>; \<open>weight\<close> is the engine's module weight.\<close>

definition OptionsFlow_score :: "interp \<Rightarrow> options_rulebook \<Rightarrow> real \<Rightarrow> env \<Rightarrow> pyexn + options_result" where
  "OptionsFlow_score ip rulebook weight options_snapshot =
     (case options_loop ip (of_groups rulebook) (allowed_names options_snapshot)
             (of_minor_states rulebook) ([], [], 0) of
        Inl e \<Rightarrow> Inl e
      | Inr (matched, details, minor_score_accumulator) \<Rightarrow>
          Inr \<lparr>of_minor_score = minor_score_accumulator,
               final_options_flow_score = minor_score_accumulator * weight,
               of_matched_states = matched,
               of_state_details = details\<rparr>)"

section \<open>Fundamentals scoring engine\<close>

text \<open>
  The rulebook of the fundamentals engine (the position-risk engine reads the same
  shape): \<open>meta.score_scale\<close>, \<open>meta.groups\<close> with a \<open>base_weight\<close> each, and
  \<open>metrics\<close>, each with a group, a weight and, per timeframe, its states. Dictionaries
  are association lists in insertion order, the order in which Python iterates them.
\<close>

record metric_rule =
  metric_group :: "string option"
  metric_weight :: "real option"
  metric_timeframes :: "(string \<times> states_def option) list"

record rulebook =
  score_scale :: "real \<times> real"
  groups :: "(string \<times> real option) list"
  metrics :: "(string \<times> metric_rule) list"

text \<open>\<open>d[k] = v\<close> on a dictionary kept in insertion order.\<close>

fun dict_set :: "('k \<times> 'v) list \<Rightarrow> 'k \<Rightarrow> 'v \<Rightarrow> ('k \<times> 'v) list" where
  "dict_set [] k v = [(k, v)]"
| "dict_set ((k', v') # rest) k v =
     (if k' = k then (k, v) # rest else (k', v') # dict_set rest k v)"

text \<open>True division, which raises on a zero divisor.\<close>

definition truediv :: "real \<Rightarrow> real \<Rightarrow> pyexn + real" where
  "truediv a b = (if b = 0 then Inl ZeroDivisionError else Inr (a / b))"

definition fundamentals_keys :: "string list" where
  "fundamentals_keys =
     [''pe_ratio'', ''ps_ratio'', ''pb_ratio'', ''eps_growth_5y'', ''revenue_growth_yoy'',
      ''profit_margin'', ''operating_margin'', ''roe'', ''debt_to_equity'',
      ''interest_coverage'', ''free_cash_flow_yield'', ''dividend_yield'', ''market_cap'',
      ''sector'']"

definition snapshot_get :: "env \<Rightarrow> string \<Rightarrow> pyval" where
  "snapshot_get snapshot k = (case map_of snapshot k of None \<Rightarrow> PNone | Some v \<Rightarrow> v)"

definition local_env :: "env \<Rightarrow> env" where
  "local_env snapshot = map (\<lambda>k. (k, snapshot_get snapshot k)) fundamentals_keys"

text \<open>
  \<open>FundamentalsScoringEngine._match_condition\<close>: the built-in \<open>eval\<close> without
  built-ins, any exception being a non-match.
\<close>

definition match_condition :: "interp \<Rightarrow> env \<Rightarrow> string \<Rightarrow> bool" where
  "match_condition ip snapshot condition_expr =
     (case builtin_eval ip condition_expr (local_env snapshot) of
        Inl e \<Rightarrow> False
      | Inr v \<Rightarrow> truthy v)"

text \<open>
  The loop of \<open>_score_metric_states\<close>; the accumulator is the pair of
  \<open>matched_scores\<close> and \<open>matched_states\<close>.
\<close>

fun metric_states_loop :: "interp \<Rightarrow> env \<Rightarrow> string \<Rightarrow> states_def \<Rightarrow>
    real list \<times> string list \<Rightarrow> pyexn + (real list \<times> string list)" where
  "metric_states_loop ip snapshot metric_name [] acc = Inr acc"
| "metric_states_loop ip snapshot metric_name ((state_name, rule) # rest) (matched_scores, matched) =
     (let rng = (case score_range rule of None \<Rightarrow> ScorePair (- 1) 1 | Some r \<Rightarrow> r) in
      case condition rule of
        None \<Rightarrow> metric_states_loop ip snapshot metric_name rest (matched_scores, matched)
      | Some condition_expr \<Rightarrow>
         (if condition_expr = [] then
            metric_states_loop ip snapshot metric_name rest (matched_scores, matched)
          else if match_condition ip snapshot condition_expr then
            (case unpack_range rng of
               Inl e \<Rightarrow> Inl e
             | Inr (low, high) \<Rightarrow>
                 metric_states_loop ip snapshot metric_name rest
                   (matched_scores @ [(low + high) / 2],
                    matched @ [metric_name @ ''.'' @ state_name]))
          else metric_states_loop ip snapshot metric_name rest (matched_scores, matched)))"

definition score_metric_states :: "interp \<Rightarrow> string \<Rightarrow> states_def \<Rightarrow> env \<Rightarrow>
    pyexn + (real option \<times> string list)" where
  "score_metric_states ip metric_name states snapshot =
     (case metric_states_loop ip snapshot metric_name states ([], []) of
        Inl e \<Rightarrow> Inl e
      | Inr (matched_scores, matched) \<Rightarrow>
         (if matched_scores = [] then Inr (None, matched)
          else (case truediv (sum_list matched_scores) (real (length matched_scores)) of
                  Inl e \<Rightarrow> Inl e
                | Inr metric_score \<Rightarrow> Inr (Some metric_score, matched))))"

definition group_base_weight :: "(string \<times> real option) list \<Rightarrow> string option \<Rightarrow> real" where
  "group_base_weight groups_def group_name =
     (case group_name of
        None \<Rightarrow> 1
      | Some g \<Rightarrow>
         (case map_of groups_def g of
            None \<Rightarrow> 1
          | Some None \<Rightarrow> 1
          | Some (Some w) \<Rightarrow> w))"

text \<open>
  The body of the loop of \<open>_score_timeframe\<close> for one metric: \<open>None\<close> is a
  \<open>continue\<close>; otherwise the metric's name, score, combined weight \<open>w\<close> and the names
  of its matched states.
\<close>

definition metric_step :: "interp \<Rightarrow> (string \<times> real option) list \<Rightarrow> string \<Rightarrow> env \<Rightarrow>
    string \<times> metric_rule \<Rightarrow> pyexn + (string \<times> real \<times> real \<times> string list) option" where
  "metric_step ip groups_def timeframe snapshot entry =
     (case entry of (metric_name, rule) \<Rightarrow>
        (case map_of (metric_timeframes rule) timeframe of
           None \<Rightarrow> Inr None
         | Some tf \<Rightarrow>
            (let w = (case metric_weight rule of None \<Rightarrow> 1 | Some x \<Rightarrow> x)
                       * group_base_weight groups_def (metric_group rule);
                 states = (case tf of None \<Rightarrow> [] | Some s \<Rightarrow> s)
             in case score_metric_states ip metric_name states snapshot of
                  Inl e \<Rightarrow> Inl e
                | Inr (None, names) \<Rightarrow> Inr None
                | Inr (Some metric_score, names) \<Rightarrow>
                    Inr (Some (metric_name, metric_score, w, names)))))"

text \<open>
  The loop itself; the accumulator holds \<open>metric_scores\<close>, \<open>matched_states\<close>,
  \<open>weighted_sum\<close> and \<open>total_weight\<close>.
\<close>

fun timeframe_loop :: "interp \<Rightarrow> (string \<times> real option) list \<Rightarrow> string \<Rightarrow> env \<Rightarrow>
    (string \<times> metric_rule) list \<Rightarrow>
    (string \<times> real) list \<times> string list \<times> real \<times> real \<Rightarrow>
    pyexn + ((string \<times> real) list \<times> string list \<times> real \<times> real)" where
  "timeframe_loop ip groups_def timeframe snapshot [] acc = Inr acc"
| "timeframe_loop ip groups_def timeframe snapshot (entry # rest)
       (metric_scores, matched, weighted_sum, total_weight) =
     (case metric_step ip groups_def timeframe snapshot entry of
        Inl e \<Rightarrow> Inl e
      | Inr None \<Rightarrow>
          timeframe_loop ip groups_def timeframe snapshot rest
            (metric_scores, matched, weighted_sum, total_weight)
      | Inr (Some (metric_name, metric_score, w, names)) \<Rightarrow>
          timeframe_loop ip groups_def timeframe snapshot rest
            (dict_set metric_scores metric_name metric_score, matched @ names,
             weighted_sum + metric_score * w, total_weight + w))"

definition score_timeframe :: "interp \<Rightarrow> rulebook \<Rightarrow> string \<Rightarrow> env \<Rightarrow>
    pyexn + (real \<times> (string \<times> real) list \<times> string list)" where
  "score_timeframe ip rb timeframe snapshot =
     (case timeframe_loop ip (groups rb) timeframe snapshot (metrics rb) ([], [], 0, 0) of
        Inl e \<Rightarrow> Inl e
      | Inr (metric_scores, matched, weighted_sum, total_weight) \<Rightarrow>
         (if total_weight = 0 then Inr (0, metric_scores, matched)
          else (case truediv weighted_sum total_weight of
                  Inl e \<Rightarrow> Inl e
                | Inr final_timeframe_score \<Rightarrow>
                    Inr (final_timeframe_score, metric_scores, matched))))"

text \<open>\<open>FundamentalsScoringEngine._combine_minor_major\<close>: 70 per cent MAJOR, 30 per cent MINOR.\<close>

definition combine_minor_major :: "real \<Rightarrow> real \<Rightarrow> real" where
  "combine_minor_major minor major =
     (let has_minor = (\<bar>minor\<bar> > 1 / 1000000);
          has_major = (\<bar>major\<bar> > 1 / 1000000)
      in if has_minor \<and> has_major then major * (7 / 10) + minor * (3 / 10)
         else if has_major then major
         else if has_minor then minor
         else 0)"

text \<open>\<open>SentimentScoringEngine._combine_minor_major\<close>: 60 per cent MINOR, 40 per cent MAJOR.\<close>

definition Sentiment_combine_minor_major :: "real \<Rightarrow> real \<Rightarrow> real" where
  "Sentiment_combine_minor_major minor major =
     (let has_minor = (\<bar>minor\<bar> > 1 / 1000000);
          has_major = (\<bar>major\<bar> > 1 / 1000000)
      in if has_minor \<and> has_major then (6 / 10) * minor + (4 / 10) * major
         else if has_major then major
         else if has_minor then minor
         else 0)"

record fundamentals_result =
  minor_score :: real
  major_score :: real
  final_fundamentals_score :: real
  metric_scores_of :: "(string \<times> real) list"
  matched_states_of :: "string list"

text \<open>\<open>FundamentalsScoringEngine.score\<close>; the module weight \<open>self.weight\<close> is 0.75.\<close>

definition Fundamentals_weight :: real where
  "Fundamentals_weight = 75 / 100"

definition Fundamentals_score :: "interp \<Rightarrow> rulebook \<Rightarrow> env \<Rightarrow> pyexn + fundamentals_result" where
  "Fundamentals_score ip rb fundamentals_snapshot =
     (case score_timeframe ip rb ''MINOR'' fundamentals_snapshot of
        Inl e \<Rightarrow> Inl e
      | Inr (minor, minor_metric_scores, minor_states) \<Rightarrow>
         (case score_timeframe ip rb ''MAJOR'' fundamentals_snapshot of
            Inl e \<Rightarrow> Inl e
          | Inr (major, major_metric_scores, major_states) \<Rightarrow>
             (let combined = combine_minor_major minor major;
                  final_weighted = combined * Fundamentals_weight
              in Inr \<lparr>minor_score = minor, major_score = major,
                      final_fundamentals_score = final_weighted,
                      metric_scores_of =
                        foldl (\<lambda>d (k, v). dict_set d k v) minor_metric_scores major_metric_scores,
                      matched_states_of = minor_states @ major_states\<rparr>)))"

section \<open>The component system of scoring\_system.py\<close>

subsection \<open>Inputs\<close>

record IndicatorSnapshot =
  timeframe :: string
  rsi :: "real option"
  macd :: "real option"
  macd_signal :: "real option"
  macd_histogram :: "real option"
  sma9 :: "real option"
  sma20 :: "real option"
  sma50 :: "real option"
  sma150 :: "real option"
  sma200 :: "real option"
  vwap :: "real option"
  atr :: "real option"
  upper_band :: "real option"
  lower_band :: "real option"
  bandwidth :: "real option"
  price :: "real option"
  volume :: "real option"
  avg_volume_same_period :: "real option"
  intraday_ATR :: "real option"

record MacroSnapshot =
  spy_daily_regime_score :: real
  spy_intraday_regime_score :: real
  vix_score :: real
  fear_greed_score :: real
  macro_news_score :: real

record SectorSnapshot =
  sector_name :: string
  sector_score_daily :: real
  sector_score_intraday :: real

text \<open>
  \<open>SymbolState\<close> and \<open>UniverseState\<close>, with the fields that the technical, macro and
  sector components read. The news, options-flow and micro-company snapshots belong to
  components that enter the master engine below as arbitrary components.
\<close>

record SymbolState =
  symbol :: string
  sector :: "string option"
  symbol_price :: "real option"
  indicators_minor :: "IndicatorSnapshot option"
  indicators_major :: "IndicatorSnapshot option"

record UniverseState =
  symbols :: "(string \<times> SymbolState) list"
  macro :: MacroSnapshot
  sectors :: "(string \<times> SectorSnapshot) list"

subsection \<open>Outputs\<close>

record indicator_breakdown =
  ib_indicator :: string
  ib_group :: string
  ib_minor_score :: "real option"
  ib_major_score :: "real option"
  ib_combined :: real

datatype details =
    Reason string
  | MatchedStates "(string \<times> real) list" real
  | IndicatorsBreakdown "indicator_breakdown list" real
  | Numbers "(string \<times> real) list"
  | SectorNumbers string "(string \<times> real) list"

record ComponentScore =
  component_name :: string
  raw_score :: real
  weight :: real
  weighted_score :: real
  cs_details :: details

record SymbolScoreResult =
  result_symbol :: string
  total_score :: real
  direction :: string
  components :: "ComponentScore list"

subsection \<open>BaseScoringComponent\<close>

text \<open>
  A component is its name, its weight and its own \<open>_compute_raw_score\<close>, the method
  each subclass overrides.
\<close>

record component =
  comp_name :: string
  comp_weight :: real
  compute_raw_score :: "SymbolState \<Rightarrow> UniverseState \<Rightarrow> pyexn + (real \<times> details)"

definition score_symbol :: "component \<Rightarrow> SymbolState \<Rightarrow> UniverseState \<Rightarrow> pyexn + ComponentScore" where
  "score_symbol c symbol_state universe_state =
     (case compute_raw_score c symbol_state universe_state of
        Inl e \<Rightarrow> Inl e
      | Inr (raw, det) \<Rightarrow>
         (let raw_score_clamped = max (- 10) (min 10 raw);
              weighted = raw_score_clamped * comp_weight c
          in Inr \<lparr>component_name = comp_name c, raw_score = raw_score_clamped,
                  weight = comp_weight c, weighted_score = weighted, cs_details = det\<rparr>))"

subsection \<open>TechnicalIndicatorsComponent\<close>

record tf_cfg =
  tf_states :: "states_def option"
  tf_context_rules :: "string list option"

record indicator_cfg =
  base_impact :: "real option"
  indicator_group :: "string option"
  indicator_timeframes :: "(string \<times> tf_cfg) list"

fun starts_with :: "string \<Rightarrow> string \<Rightarrow> bool" where
  "starts_with [] s = True"
| "starts_with (p # ps) [] = False"
| "starts_with (p # ps) (c # cs) = (p = c \<and> starts_with ps cs)"

text \<open>\<open>sub in s\<close> on strings.\<close>

fun contains :: "string \<Rightarrow> string \<Rightarrow> bool" where
  "contains sub [] = (sub = [])"
| "contains sub (c # cs) = (starts_with sub (c # cs) \<or> contains sub cs)"

definition opt_float :: "real option \<Rightarrow> pyval" where
  "opt_float x = (case x of None \<Rightarrow> PNone | Some r \<Rightarrow> PFloat r)"

definition indicator_env :: "IndicatorSnapshot \<Rightarrow> SymbolState \<Rightarrow> env" where
  "indicator_env snapshot symbol_state =
     [(''rsi'', opt_float (rsi snapshot)),
      (''macd'', opt_float (macd snapshot)),
      (''signal'', opt_float (macd_signal snapshot)),
      (''histogram'', opt_float (macd_histogram snapshot)),
      (''sma9'', opt_float (sma9 snapshot)),
      (''sma20'', opt_float (sma20 snapshot)),
      (''sma50'', opt_float (sma50 snapshot)),
      (''sma150'', opt_float (sma150 snapshot)),
      (''sma200'', opt_float (sma200 snapshot)),
      (''vwap'', opt_float (vwap snapshot)),
      (''atr'', opt_float (atr snapshot)),
      (''upper_band'', opt_float (upper_band snapshot)),
      (''lower_band'', opt_float (lower_band snapshot)),
      (''bandwidth'', opt_float (bandwidth snapshot)),
      (''price'', (if truthy (opt_float (price snapshot)) then opt_float (price snapshot)
                   else opt_float (symbol_price symbol_state))),
      (''current_volume'', opt_float (volume snapshot)),
      (''avg_volume_same_period'', opt_float (avg_volume_same_period snapshot)),
      (''intraday_ATR'', opt_float (intraday_ATR snapshot)),
      (''abs'', PBuiltin ''abs''),
      (''math'', PBuiltin ''math'')]"

definition evaluate_condition :: "interp \<Rightarrow> string \<Rightarrow> IndicatorSnapshot \<Rightarrow> SymbolState \<Rightarrow> bool" where
  "evaluate_condition ip cond0 snapshot symbol_state =
     (let cond = strip cond0 in
      if cond = [] then False
      else if contains ''AND'' cond \<or> contains '':'' cond then False
      else (case builtin_eval ip cond (indicator_env snapshot symbol_state) of
              Inl e \<Rightarrow> False
            | Inr v \<Rightarrow> truthy v))"

text \<open>
  The loop of \<open>_score_indicator_timeframe\<close>; the accumulator is the pair of
  \<open>matched_states\<close> and \<open>raw_scores\<close>.
\<close>

fun indicator_states_loop :: "interp \<Rightarrow> IndicatorSnapshot \<Rightarrow> SymbolState \<Rightarrow> states_def \<Rightarrow>
    (string \<times> real) list \<times> real list \<Rightarrow> (string \<times> real) list \<times> real list" where
  "indicator_states_loop ip snapshot symbol_state [] acc = acc"
| "indicator_states_loop ip snapshot symbol_state ((state_name, state_cfg) # rest) (matched, raw_scores) =
     (let condition_str = (case condition state_cfg of None \<Rightarrow> [] | Some c \<Rightarrow> c);
          rng = (case score_range state_cfg of None \<Rightarrow> ScorePair (- 1) 1 | Some r \<Rightarrow> r)
      in if evaluate_condition ip condition_str snapshot symbol_state then
           (let s = (case rng of ScorePair low high \<Rightarrow> (low + high) / 2 | ScoreScalar x \<Rightarrow> x)
            in indicator_states_loop ip snapshot symbol_state rest
                 (matched @ [(state_name, s)], raw_scores @ [s]))
         else indicator_states_loop ip snapshot symbol_state rest (matched, raw_scores))"

definition score_indicator_timeframe :: "interp \<Rightarrow> string \<Rightarrow> indicator_cfg \<Rightarrow> SymbolState \<Rightarrow>
    IndicatorSnapshot option \<Rightarrow> string \<Rightarrow> pyexn + (real option \<times> details)" where
  "score_indicator_timeframe ip name cfg symbol_state snapshot tf =
     (case snapshot of
        None \<Rightarrow> Inr (None, Reason (''no_'' @ tf @ ''_data''))
      | Some snap \<Rightarrow>
         (case map_of (indicator_timeframes cfg) tf of
            None \<Rightarrow> Inr (None, Reason (''no_'' @ tf @ ''_config''))
          | Some tfc \<Rightarrow>
             (if tf_states tfc = None \<and> tf_context_rules tfc = None then
                Inr (None, Reason (''no_'' @ tf @ ''_config''))
              else
                (let states = (case tf_states tfc of None \<Rightarrow> [] | Some s \<Rightarrow> s) in
                 case indicator_states_loop ip snap symbol_state states ([], []) of
                   (matched, raw_scores) \<Rightarrow>
                     (if raw_scores = [] then Inr (Some 0, Reason ''no_state_matched'')
                      else (case truediv (sum_list raw_scores) (real (length raw_scores)) of
                              Inl e \<Rightarrow> Inl e
                            | Inr base_score \<Rightarrow>
                                Inr (Some base_score, MatchedStates matched base_score)))))))"

text \<open>
  The loop of \<open>TechnicalIndicatorsComponent._compute_raw_score\<close>; the accumulator holds
  \<open>components\<close>, \<open>total_score\<close> and \<open>total_weight\<close>.
\<close>

fun indicators_loop :: "interp \<Rightarrow> SymbolState \<Rightarrow> (string \<times> indicator_cfg) list \<Rightarrow>
    indicator_breakdown list \<times> real \<times> real \<Rightarrow>
    pyexn + (indicator_breakdown list \<times> real \<times> real)" where
  "indicators_loop ip symbol_state [] acc = Inr acc"
| "indicators_loop ip symbol_state ((name, cfg) # rest) (comps, acc_score, acc_weight) =
     (let impact = (case base_impact cfg of None \<Rightarrow> 5 | Some b \<Rightarrow> b);
          grp = (case indicator_group cfg of None \<Rightarrow> ''MOMENTUM'' | Some g \<Rightarrow> g)
      in case score_indicator_timeframe ip name cfg symbol_state
                (indicators_minor symbol_state) ''MINOR'' of
           Inl e \<Rightarrow> Inl e
         | Inr (indicator_score_minor, detail_minor) \<Rightarrow>
            (case score_indicator_timeframe ip name cfg symbol_state
                    (indicators_major symbol_state) ''MAJOR'' of
               Inl e \<Rightarrow> Inl e
             | Inr (indicator_score_major, detail_major) \<Rightarrow>
                (let combined =
                       (case indicator_score_minor of None \<Rightarrow> 0 | Some m \<Rightarrow> m * (6 / 10))
                     + (case indicator_score_major of None \<Rightarrow> 0 | Some m \<Rightarrow> m * (4 / 10))
                 in indicators_loop ip symbol_state rest
                      (comps @ [\<lparr>ib_indicator = name, ib_group = grp,
                                 ib_minor_score = indicator_score_minor,
                                 ib_major_score = indicator_score_major,
                                 ib_combined = combined\<rparr>],
                       acc_score + combined * impact,
                       acc_weight + \<bar>impact\<bar>))))"

definition Technical_compute_raw_score :: "interp \<Rightarrow> (string \<times> indicator_cfg) list \<Rightarrow>
    SymbolState \<Rightarrow> UniverseState \<Rightarrow> pyexn + (real \<times> details)" where
  "Technical_compute_raw_score ip indicator_defs symbol_state universe_state =
     (if indicators_minor symbol_state = None \<and> indicators_major symbol_state = None then
        Inr (0, Reason ''no_indicator_data'')
      else
        (case indicators_loop ip symbol_state indicator_defs ([], 0, 0) of
           Inl e \<Rightarrow> Inl e
         | Inr (comps, acc_score, acc_weight) \<Rightarrow>
            (case (if acc_weight = 0 then Inr 0 else truediv acc_score acc_weight) of
               Inl e \<Rightarrow> Inl e
             | Inr final_score0 \<Rightarrow>
                (let final_score = max (- 10) (min 10 final_score0)
                 in Inr (final_score, IndicatorsBreakdown comps final_score)))))"


subsection \<open>MacroScoringComponent and SectorScoringComponent\<close>

definition Macro_compute_raw_score :: "SymbolState \<Rightarrow> UniverseState \<Rightarrow> pyexn + (real \<times> details)" where
  "Macro_compute_raw_score symbol_state universe_state =
     (let m = macro universe_state;
          score0 = spy_daily_regime_score m * (35 / 100)
                 + spy_intraday_regime_score m * (25 / 100)
                 + vix_score m * (2 / 10)
                 + fear_greed_score m * (1 / 10)
                 + macro_news_score m * (1 / 10);
          score = max (- 10) (min 10 score0)
      in Inr (score,
              Numbers [(''spy_daily_regime_score'', spy_daily_regime_score m),
                       (''spy_intraday_regime_score'', spy_intraday_regime_score m),
                       (''vix_score'', vix_score m),
                       (''fear_greed_score'', fear_greed_score m),
                       (''macro_news_score'', macro_news_score m),
                       (''combined_macro_score'', score)]))"

definition MacroScoringComponent :: "real \<Rightarrow> component" where
  "MacroScoringComponent w =
     \<lparr>comp_name = ''MACRO'', comp_weight = w, compute_raw_score = Macro_compute_raw_score\<rparr>"

definition Sector_compute_raw_score :: "SymbolState \<Rightarrow> UniverseState \<Rightarrow> pyexn + (real \<times> details)" where
  "Sector_compute_raw_score symbol_state universe_state =
     (case sector symbol_state of
        None \<Rightarrow> Inr (0, Reason ''no_sector_data'')
      | Some sec \<Rightarrow>
         (if sec = [] then Inr (0, Reason ''no_sector_data'')
          else (case map_of (sectors universe_state) sec of
                  None \<Rightarrow> Inr (0, Reason ''no_sector_data'')
                | Some sector_snap \<Rightarrow>
                   (let score0 = sector_score_daily sector_snap * (5 / 10)
                               + sector_score_intraday sector_snap * (5 / 10);
                        score = max (- 10) (min 10 score0)
                    in Inr (score,
                            SectorNumbers sec
                              [(''daily'', sector_score_daily sector_snap),
                               (''intraday'', sector_score_intraday sector_snap),
                               (''combined_sector_score'', score)])))))"

definition SectorScoringComponent :: "real \<Rightarrow> component" where
  "SectorScoringComponent w =
     \<lparr>comp_name = ''SECTOR'', comp_weight = w, compute_raw_score = Sector_compute_raw_score\<rparr>"

subsection \<open>MasterScoringEngine.score\_universe\<close>

text \<open>The inner loop over \<open>self._all_components\<close>.\<close>

fun score_components :: "component list \<Rightarrow> SymbolState \<Rightarrow> UniverseState \<Rightarrow> pyexn + ComponentScore list" where
  "score_components [] state universe = Inr []"
| "score_components (c # cs) state universe =
     (case score_symbol c state universe of
        Inl e \<Rightarrow> Inl e
      | Inr x \<Rightarrow>
         (case score_components cs state universe of
            Inl e \<Rightarrow> Inl e
          | Inr xs \<Rightarrow> Inr (x # xs)))"

text \<open>The direction that \<open>score_universe\<close> derives from the total.\<close>

definition universe_direction :: "real \<Rightarrow> string" where
  "universe_direction t =
     (if t > 5 / 10 then ''LONG''
      else if t < - (5 / 10) then ''SHORT''
      else ''NEUTRAL'')"

definition score_one_symbol :: "component list \<Rightarrow> UniverseState \<Rightarrow> string \<times> SymbolState \<Rightarrow>
    pyexn + SymbolScoreResult" where
  "score_one_symbol all_components universe entry =
     (case entry of (symb, state) \<Rightarrow>
        (case score_components all_components state universe of
           Inl e \<Rightarrow> Inl e
         | Inr component_scores \<Rightarrow>
            (let t = sum_list (map weighted_score component_scores)
             in Inr \<lparr>result_symbol = symb, total_score = t,
                     direction = universe_direction t,
                     components = component_scores\<rparr>)))"

fun score_symbols :: "component list \<Rightarrow> UniverseState \<Rightarrow> (string \<times> SymbolState) list \<Rightarrow>
    pyexn + SymbolScoreResult list" where
  "score_symbols all_components universe [] = Inr []"
| "score_symbols all_components universe (entry # rest) =
     (case score_one_symbol all_components universe entry of
        Inl e \<Rightarrow> Inl e
      | Inr r \<Rightarrow>
         (case score_symbols all_components universe rest of
            Inl e \<Rightarrow> Inl e
          | Inr rs \<Rightarrow> Inr (r # rs)))"

text \<open>
  \<open>results.sort(key=lambda r: abs(r.total_score), reverse=True)\<close>: a stable sort,
  strongest first.
\<close>

definition score_universe :: "component list \<Rightarrow> UniverseState \<Rightarrow> pyexn + SymbolScoreResult list" where
  "score_universe all_components universe =
     (case score_symbols all_components universe (symbols universe) of
        Inl e \<Rightarrow> Inl e
      | Inr results \<Rightarrow> Inr (sort_key (\<lambda>r. - \<bar>total_score r\<bar>) results))"

section \<open>The master engine of master\_scoring.py\<close>

record master_config =
  use_macro :: bool
  use_sector :: bool
  use_news :: bool
  use_technical :: bool
  use_options :: bool
  use_pattern :: bool
  use_strategy_context :: bool
  use_position_risk :: bool
  direction_threshold :: real

definition DEFAULT_CONFIG :: master_config where
  "DEFAULT_CONFIG =
     \<lparr>use_macro = True, use_sector = True, use_news = True, use_technical = True,
      use_options = True, use_pattern = True, use_strategy_context = True,
      use_position_risk = True, direction_threshold = 2\<rparr>"

definition module_score_keys :: "(string \<times> string) list" where
  "module_score_keys =
     [(''macro'', ''final_macro_score''),
      (''sector'', ''final_sector_macro_score''),
      (''news'', ''final_news_score''),
      (''technical'', ''final_technical_score''),
      (''options'', ''final_options_score''),
      (''pattern'', ''final_pattern_price_score''),
      (''strategy_context'', ''final_strategy_context_score''),
      (''position_risk'', ''final_position_risk_score'')]"

definition module_order :: "string list" where
  "module_order =
     [''macro'', ''sector'', ''news'', ''technical'', ''options'', ''pattern'',
      ''strategy_context'', ''position_risk'']"

definition is_module_enabled :: "master_config \<Rightarrow> string \<Rightarrow> bool" where
  "is_module_enabled config module_name =
     (if module_name = ''macro'' then use_macro config
      else if module_name = ''sector'' then use_sector config
      else if module_name = ''news'' then use_news config
      else if module_name = ''technical'' then use_technical config
      else if module_name = ''options'' then use_options config
      else if module_name = ''pattern'' then use_pattern config
      else if module_name = ''strategy_context'' then use_strategy_context config
      else if module_name = ''position_risk'' then use_position_risk config
      else False)"

definition clamp :: "real \<Rightarrow> real \<Rightarrow> real \<Rightarrow> real" where
  "clamp v low high = max low (min high v)"

definition direction_from_score :: "master_config \<Rightarrow> real \<Rightarrow> string" where
  "direction_from_score config score =
     (let threshold = direction_threshold config in
      if score \<ge> threshold then ''LONG''
      else if score \<le> - threshold then ''SHORT''
      else ''NEUTRAL'')"

record MasterScoreResult =
  master_symbol :: string
  module_scores :: "(string \<times> real) list"
  final_master_score :: real
  master_direction :: string
  abs_strength :: real
  used_modules :: "string list"

text \<open>
  The loop of \<open>MasterScoringEngine.score_symbol\<close> over \<open>module_order\<close>. A module's
  result is the dictionary its engine returned; a missing score key is \<open>None\<close>. The
  accumulator holds \<open>module_scores\<close>, \<open>used_modules\<close>, \<open>total\<close> and \<open>count\<close>.
\<close>

fun modules_loop :: "master_config \<Rightarrow> (string \<times> (string \<times> real) list) list \<Rightarrow> string list \<Rightarrow>
    (string \<times> real) list \<times> string list \<times> real \<times> nat \<Rightarrow>
    (string \<times> real) list \<times> string list \<times> real \<times> nat" where
  "modules_loop config module_results [] acc = acc"
| "modules_loop config module_results (module_name # rest) (scores, used, tot, cnt) =
     (if \<not> is_module_enabled config module_name then
        modules_loop config module_results rest (scores, used, tot, cnt)
      else (case map_of module_results module_name of
              None \<Rightarrow> modules_loop config module_results rest (scores, used, tot, cnt)
            | Some result_dict \<Rightarrow>
               (if result_dict = [] then
                  modules_loop config module_results rest (scores, used, tot, cnt)
                else (case map_of module_score_keys module_name of
                        None \<Rightarrow> modules_loop config module_results rest (scores, used, tot, cnt)
                      | Some score_key \<Rightarrow>
                         (case map_of result_dict score_key of
                            None \<Rightarrow> modules_loop config module_results rest (scores, used, tot, cnt)
                          | Some raw \<Rightarrow>
                             (let clamped = clamp raw (- 10) 10
                              in modules_loop config module_results rest
                                   (dict_set scores module_name clamped, used @ [module_name],
                                    tot + clamped, Suc cnt)))))))"

definition Master_score_symbol :: "master_config \<Rightarrow> string \<Rightarrow> (string \<times> (string \<times> real) list) list \<Rightarrow>
    pyexn + MasterScoreResult" where
  "Master_score_symbol config symb module_results =
     (case modules_loop config module_results module_order ([], [], 0, 0) of
        (scores, used, tot, cnt) \<Rightarrow>
          (case (if cnt = 0 then Inr 0 else truediv tot (real cnt)) of
             Inl e \<Rightarrow> Inl e
           | Inr final_score0 \<Rightarrow>
              (let final_score = clamp final_score0 (- 10) 10
               in Inr \<lparr>master_symbol = symb, module_scores = scores,
                       final_master_score = final_score,
                       master_direction = direction_from_score config final_score,
                       abs_strength = \<bar>final_score\<bar>,
                       used_modules = used\<rparr>)))"

section \<open>Reference formulas\<close>

text \<open>
  The quantities the specification names, defined once so that the loops above can be
  compared with them: which states match, their midpoints, and the metrics that
  produce a score in a timeframe.
\<close>

definition range_of :: "state_rule \<Rightarrow> score_cfg" where
  "range_of r = (case score_range r of None \<Rightarrow> ScorePair (- 1) 1 | Some x \<Rightarrow> x)"

fun is_pair :: "score_cfg \<Rightarrow> bool" where
  "is_pair (ScorePair low high) = True"
| "is_pair (ScoreScalar x) = False"

fun midpoint :: "score_cfg \<Rightarrow> real" where
  "midpoint (ScorePair low high) = (low + high) / 2"
| "midpoint (ScoreScalar x) = x"

definition state_matches :: "interp \<Rightarrow> env \<Rightarrow> state_rule \<Rightarrow> bool" where
  "state_matches ip snapshot r =
     (case condition r of
        None \<Rightarrow> False
      | Some c \<Rightarrow> c \<noteq> [] \<and> match_condition ip snapshot c)"

definition matched_rules :: "interp \<Rightarrow> env \<Rightarrow> states_def \<Rightarrow> states_def" where
  "matched_rules ip snapshot states = filter (\<lambda>(n, r). state_matches ip snapshot r) states"

definition matched_midpoints :: "interp \<Rightarrow> env \<Rightarrow> states_def \<Rightarrow> real list" where
  "matched_midpoints ip snapshot states =
     map (\<lambda>(n, r). midpoint (range_of r)) (matched_rules ip snapshot states)"

definition pair_ranges :: "states_def \<Rightarrow> bool" where
  "pair_ranges states = list_all (\<lambda>(n, r). is_pair (range_of r)) states"

definition mean :: "real list \<Rightarrow> real" where
  "mean xs = sum_list xs / real (length xs)"

text \<open>
  The same for the options-flow engine, which has no metric level: the condition and the
  score range of a state with the defaults of \<open>OptionsFlowScoringEngine.score\<close>, the
  states whose condition evaluates true, and the detail record of a matched state.
\<close>

definition options_condition :: "state_rule \<Rightarrow> string" where
  "options_condition r = (case condition r of None \<Rightarrow> [] | Some c \<Rightarrow> c)"

definition options_range_of :: "state_rule \<Rightarrow> score_cfg" where
  "options_range_of r = (case score_range r of None \<Rightarrow> ScorePair 0 0 | Some x \<Rightarrow> x)"

definition options_matched :: "interp \<Rightarrow> env \<Rightarrow> states_def \<Rightarrow> states_def" where
  "options_matched ip names states =
     filter (\<lambda>(n, r). OptionsFlow_safe_eval ip (options_condition r) names) states"

definition options_pair_ranges :: "states_def \<Rightarrow> bool" where
  "options_pair_ranges states = list_all (\<lambda>(n, r). is_pair (options_range_of r)) states"

definition options_detail :: "(string \<times> real option) list \<Rightarrow> state_rule \<Rightarrow> state_detail" where
  "options_detail groups_meta r =
     \<lparr>sd_condition = options_condition r,
      sd_avg_score = midpoint (options_range_of r),
      sd_weighted = midpoint (options_range_of r) * group_weight groups_meta (group r),
      sd_base_weight = group_weight groups_meta (group r),
      sd_group = group r\<rparr>"

text \<open>The metrics that produce a score in a timeframe, in the order of the rule table.\<close>

fun contributing :: "interp \<Rightarrow> (string \<times> real option) list \<Rightarrow> string \<Rightarrow> env \<Rightarrow>
    (string \<times> metric_rule) list \<Rightarrow> pyexn + (string \<times> real \<times> real \<times> string list) list" where
  "contributing ip groups_def tf snapshot [] = Inr []"
| "contributing ip groups_def tf snapshot (entry # rest) =
     (case metric_step ip groups_def tf snapshot entry of
        Inl e \<Rightarrow> Inl e
      | Inr None \<Rightarrow> contributing ip groups_def tf snapshot rest
      | Inr (Some c) \<Rightarrow>
         (case contributing ip groups_def tf snapshot rest of
            Inl e \<Rightarrow> Inl e
          | Inr cs \<Rightarrow> Inr (c # cs)))"

definition weighted_total :: "(string \<times> real \<times> real \<times> string list) list \<Rightarrow> real" where
  "weighted_total cs = (\<Sum>(n, s, w, names) \<leftarrow> cs. s * w)"

definition weight_total :: "(string \<times> real \<times> real \<times> string list) list \<Rightarrow> real" where
  "weight_total cs = (\<Sum>(n, s, w, names) \<leftarrow> cs. w)"

definition scores_dict :: "(string \<times> real) list \<Rightarrow> (string \<times> real \<times> real \<times> string list) list \<Rightarrow> (string \<times> real) list" where
  "scores_dict d cs = foldl (\<lambda>d (n, s, w, names). dict_set d n s) d cs"

definition state_names :: "(string \<times> real \<times> real \<times> string list) list \<Rightarrow> string list" where
  "state_names cs = concat (map (\<lambda>(n, s, w, names). names) cs)"

definition no_state_matches :: "interp \<Rightarrow> env \<Rightarrow> states_def \<Rightarrow> bool" where
  "no_state_matches ip snapshot states = list_all (\<lambda>(n, r). \<not> state_matches ip snapshot r) states"

text \<open>A rule table is well formed when every score range is a list of two numbers.\<close>

definition wf_metric :: "string \<times> metric_rule \<Rightarrow> bool" where
  "wf_metric entry =
     list_all (\<lambda>(tf, st). pair_ranges (case st of None \<Rightarrow> [] | Some s \<Rightarrow> s))
       (metric_timeframes (snd entry))"

definition wf_rulebook :: "rulebook \<Rightarrow> bool" where
  "wf_rulebook rb = list_all wf_metric (metrics rb)"

text \<open>A score range that lies inside a scale.\<close>

fun range_inside :: "real \<Rightarrow> real \<Rightarrow> score_cfg \<Rightarrow> bool" where
  "range_inside lo hi (ScorePair low high) = (lo \<le> low \<and> low \<le> hi \<and> lo \<le> high \<and> high \<le> hi)"
| "range_inside lo hi (ScoreScalar x) = False"

definition states_inside :: "real \<Rightarrow> real \<Rightarrow> states_def \<Rightarrow> bool" where
  "states_inside lo hi states = list_all (\<lambda>(n, r). range_inside lo hi (range_of r)) states"

text \<open>
  The formula of a timeframe score, written from the rule table alone: the states of a
  metric in a timeframe, whether the metric produces a score there, that score, and the
  names of its matched states.
\<close>

definition timeframe_states :: "string \<Rightarrow> metric_rule \<Rightarrow> states_def option" where
  "timeframe_states tf rule =
     (case map_of (metric_timeframes rule) tf of
        None \<Rightarrow> None
      | Some st \<Rightarrow> Some (case st of None \<Rightarrow> [] | Some s \<Rightarrow> s))"

definition produces_score :: "interp \<Rightarrow> env \<Rightarrow> string \<Rightarrow> string \<times> metric_rule \<Rightarrow> bool" where
  "produces_score ip snapshot tf entry =
     (case timeframe_states tf (snd entry) of
        None \<Rightarrow> False
      | Some states \<Rightarrow> matched_midpoints ip snapshot states \<noteq> [])"

definition metric_score :: "interp \<Rightarrow> env \<Rightarrow> string \<Rightarrow> string \<times> metric_rule \<Rightarrow> real" where
  "metric_score ip snapshot tf entry =
     (case timeframe_states tf (snd entry) of
        None \<Rightarrow> 0
      | Some states \<Rightarrow> mean (matched_midpoints ip snapshot states))"

definition metric_state_names :: "interp \<Rightarrow> env \<Rightarrow> string \<Rightarrow> string \<times> metric_rule \<Rightarrow> string list" where
  "metric_state_names ip snapshot tf entry =
     (case timeframe_states tf (snd entry) of
        None \<Rightarrow> []
      | Some states \<Rightarrow> map (\<lambda>(n, r). fst entry @ ''.'' @ n) (matched_rules ip snapshot states))"

definition producing :: "interp \<Rightarrow> env \<Rightarrow> string \<Rightarrow> rulebook \<Rightarrow> (string \<times> metric_rule) list" where
  "producing ip snapshot tf rb = filter (produces_score ip snapshot tf) (metrics rb)"

text \<open>
  The module scores that a caller supplies to the master engine of master\_scoring.py:
  for every enabled module, in the engine's order, the number its result holds under
  the module's score key.
\<close>

definition supplied_score :: "master_config \<Rightarrow> (string \<times> (string \<times> real) list) list \<Rightarrow> string \<Rightarrow> real option" where
  "supplied_score config module_results module_name =
     (if is_module_enabled config module_name then
        (case map_of module_results module_name of
           None \<Rightarrow> None
         | Some result_dict \<Rightarrow>
            (case map_of module_score_keys module_name of
               None \<Rightarrow> None
             | Some score_key \<Rightarrow> map_of result_dict score_key))
      else None)"

definition supplied_scores :: "master_config \<Rightarrow> (string \<times> (string \<times> real) list) list \<Rightarrow> (string \<times> real) list" where
  "supplied_scores config module_results =
     List.map_filter
       (\<lambda>m. map_option (\<lambda>v. (m, v)) (supplied_score config module_results m))
       module_order"

text \<open>
  What one component contributes for one symbol, and whether every component returns
  for every symbol of a universe.
\<close>

definition weighted_contribution :: "component \<Rightarrow> SymbolState \<Rightarrow> UniverseState \<Rightarrow> real" where
  "weighted_contribution c st u =
     (case compute_raw_score c st u of
        Inl e \<Rightarrow> 0
      | Inr (raw, det) \<Rightarrow> max (- 10) (min 10 raw) * comp_weight c)"

definition all_return :: "component list \<Rightarrow> UniverseState \<Rightarrow> bool" where
  "all_return cs u =
     list_all (\<lambda>(n, st). list_all (\<lambda>c. \<not> isl (compute_raw_score c st u)) cs) (symbols u)"

section \<open>An interpreter for the worked examples\<close>

text \<open>
  The trees that CPython's parser builds for the condition strings used in the examples
  below, and the result of the built-in \<open>eval\<close> on the one condition the examples of
  the technical and fundamentals engines use. On other strings this interpreter reports
  a syntax error; no example reaches them.
\<close>

definition tree_x_positive :: node where
  "tree_x_positive =
     BoolOp And [Compare (Name ''x'') [IsNot] [Constant PNone],
                 Compare (Name ''x'') [Gt] [Constant (PInt 0)]]"

definition tree_abs_gamma :: node where
  "tree_abs_gamma =
     Compare (Call (Name ''abs'') [Name ''gamma_exposure'']) [GtE]
       [Name ''gamma_critical_threshold'']"

definition tree_pcr_low :: node where
  "tree_pcr_low = Compare (Name ''put_call_ratio'') [Lt] [Constant (PFloat (6 / 10))]"

definition tree_pcr_mild :: node where
  "tree_pcr_mild = Compare (Name ''put_call_ratio'') [Lt] [Constant (PFloat (8 / 10))]"

definition tree_uoa_call :: node where
  "tree_uoa_call = Compare (Name ''uoa_call_notional_mult'') [GtE] [Constant (PFloat 5)]"

definition example_parse :: "string \<Rightarrow> pyexn + node" where
  "example_parse s =
     (if s = ''x is not None and x > 0'' then Inr tree_x_positive
      else if s = ''abs(gamma_exposure) >= gamma_critical_threshold'' then Inr tree_abs_gamma
      else if s = ''put_call_ratio < 0.6'' then Inr tree_pcr_low
      else if s = ''put_call_ratio < 0.8'' then Inr tree_pcr_mild
      else if s = ''uoa_call_notional_mult >= 5.0'' then Inr tree_uoa_call
      else Inl SyntaxError)"

definition name_cmp :: "env \<Rightarrow> string \<Rightarrow> (pyval \<Rightarrow> pyval \<Rightarrow> pyexn + pyval) \<Rightarrow> pyval \<Rightarrow> pyexn + pyval" where
  "name_cmp e ident oper c =
     (case map_of e ident of
        None \<Rightarrow> Inl NameError
      | Some v \<Rightarrow> oper v c)"

definition example_eval :: "string \<Rightarrow> env \<Rightarrow> pyexn + pyval" where
  "example_eval s e =
     (if s = ''rsi >= 80'' then name_cmp e ''rsi'' (op_order False True) (PInt 80)
      else if s = ''macd > 0'' then name_cmp e ''macd'' (op_order True True) (PInt 0)
      else if s = ''pe_ratio < 15'' then name_cmp e ''pe_ratio'' (op_order True False) (PInt 15)
      else if s = ''pe_ratio < 20'' then name_cmp e ''pe_ratio'' (op_order True False) (PInt 20)
      else if s = ''roe > 0.5'' then name_cmp e ''roe'' (op_order True True) (PFloat (5 / 10))
      else Inl SyntaxError)"

definition example_interp :: interp where
  "example_interp =
     \<lparr>parse = example_parse,
      str_format = (\<lambda>s v. Inl TypeError),
      same_object = (\<lambda>a b. False),
      builtin_eval = example_eval\<rparr>"

subsection \<open>A fundamentals rule table and snapshot\<close>

definition example_states :: states_def where
  "example_states =
     [(''CHEAP'', \<lparr>condition = Some ''pe_ratio < 15'', score_range = Some (ScorePair 3 5), group = None\<rparr>),
      (''FAIR'', \<lparr>condition = Some ''pe_ratio < 20'', score_range = Some (ScorePair 5 7), group = None\<rparr>)]"

definition example_pe_metric :: metric_rule where
  "example_pe_metric =
     \<lparr>metric_group = Some ''VALUATION'', metric_weight = Some 1,
      metric_timeframes = [(''MINOR'', Some []), (''MAJOR'', Some example_states)]\<rparr>"

definition example_roe_metric :: metric_rule where
  "example_roe_metric =
     \<lparr>metric_group = Some ''PROFITABILITY'', metric_weight = Some (8 / 10),
      metric_timeframes =
        [(''MAJOR'', Some [(''HIGH'', \<lparr>condition = Some ''roe > 0.5'',
                                       score_range = Some (ScorePair 6 8), group = None\<rparr>)])]\<rparr>"

definition example_rulebook :: rulebook where
  "example_rulebook =
     \<lparr>score_scale = (- 10, 10),
      groups = [(''VALUATION'', Some (11 / 10)), (''PROFITABILITY'', Some (11 / 10))],
      metrics = [(''PE_PB_VALUATION'', example_pe_metric), (''ROE_QUALITY'', example_roe_metric)]\<rparr>"

definition example_snapshot :: env where
  "example_snapshot = [(''pe_ratio'', PFloat 12), (''roe'', PFloat (2 / 10))]"

definition example_snapshot_high_roe :: env where
  "example_snapshot_high_roe = [(''pe_ratio'', PFloat 12), (''roe'', PFloat (6 / 10))]"

subsection \<open>An options-flow rule table and snapshot\<close>

definition example_options_rulebook :: options_rulebook where
  "example_options_rulebook =
     \<lparr>of_score_scale = (- 10, 10),
      of_groups = [(''PUT_CALL_IMBALANCE'', Some 1), (''UOA'', Some (12 / 10)), (''GAMMA'', Some (11 / 10))],
      of_minor_states =
        [(''CALL_IMBALANCE_EXTREME_BULL'',
            \<lparr>condition = Some ''put_call_ratio < 0.6'', score_range = Some (ScorePair 6 9),
             group = Some ''PUT_CALL_IMBALANCE''\<rparr>),
         (''UOA_MASSIVE_CALL_SWEEPS'',
            \<lparr>condition = Some ''uoa_call_notional_mult >= 5.0'', score_range = Some (ScorePair 7 9),
             group = Some ''UOA''\<rparr>)]\<rparr>"

definition example_options_snapshot :: env where
  "example_options_snapshot =
     [(''put_call_ratio'', PFloat (5 / 10)), (''uoa_call_notional_mult'', PFloat 6)]"

definition example_overlap_rulebook :: options_rulebook where
  "example_overlap_rulebook =
     \<lparr>of_score_scale = (- 10, 10),
      of_groups = [(''PUT_CALL_IMBALANCE'', Some 1)],
      of_minor_states =
        [(''CALL_IMBALANCE_STRONG'',
            \<lparr>condition = Some ''put_call_ratio < 0.6'', score_range = Some (ScorePair 5 7),
             group = Some ''PUT_CALL_IMBALANCE''\<rparr>),
         (''CALL_IMBALANCE_MILD'',
            \<lparr>condition = Some ''put_call_ratio < 0.8'', score_range = Some (ScorePair 3 5),
             group = Some ''PUT_CALL_IMBALANCE''\<rparr>)]\<rparr>"

definition example_gamma_rulebook :: options_rulebook where
  "example_gamma_rulebook =
     \<lparr>of_score_scale = (- 10, 10),
      of_groups = [(''GAMMA'', Some (11 / 10))],
      of_minor_states =
        [(''NEGATIVE_GAMMA_VOLATILE'',
            \<lparr>condition = Some ''abs(gamma_exposure) >= gamma_critical_threshold'',
             score_range = Some (ScorePair (- 8) (- 5)), group = Some ''GAMMA''\<rparr>)]\<rparr>"

definition example_gamma_snapshot :: env where
  "example_gamma_snapshot =
     [(''gamma_exposure'', PFloat (- 5)), (''gamma_critical_threshold'', PFloat 3)]"

subsection \<open>Technical rule tables, a symbol and universes\<close>

definition rsi_state :: "string \<times> state_rule" where
  "rsi_state =
     (''EXTREME_OVERBOUGHT'',
      \<lparr>condition = Some ''rsi >= 80'', score_range = Some (ScorePair 3 5), group = None\<rparr>)"

definition macd_state :: "string \<times> state_rule" where
  "macd_state =
     (''ABOVE_ZERO'',
      \<lparr>condition = Some ''macd > 0'', score_range = Some (ScorePair 2 4), group = None\<rparr>)"

definition both_timeframes :: "string \<times> state_rule \<Rightarrow> (string \<times> tf_cfg) list" where
  "both_timeframes st =
     [(''MINOR'', \<lparr>tf_states = Some [st], tf_context_rules = None\<rparr>),
      (''MAJOR'', \<lparr>tf_states = Some [st], tf_context_rules = None\<rparr>)]"

definition rsi_indicator :: "string \<times> indicator_cfg" where
  "rsi_indicator =
     (''RSI'', \<lparr>base_impact = Some 6, indicator_group = Some ''MOMENTUM'',
               indicator_timeframes = both_timeframes rsi_state\<rparr>)"

definition macd_indicator :: "string \<times> indicator_cfg" where
  "macd_indicator =
     (''MACD'', \<lparr>base_impact = Some 7, indicator_group = Some ''MOMENTUM'',
                indicator_timeframes = both_timeframes macd_state\<rparr>)"

definition vwap_indicator :: "string \<times> indicator_cfg" where
  "vwap_indicator =
     (''VWAP'', \<lparr>base_impact = Some 9, indicator_group = Some ''PRICE'',
                indicator_timeframes = []\<rparr>)"

definition rsi_minor_only :: "string \<times> indicator_cfg" where
  "rsi_minor_only =
     (''RSI'', \<lparr>base_impact = Some 6, indicator_group = Some ''MOMENTUM'',
               indicator_timeframes =
                 [(''MINOR'', \<lparr>tf_states = Some [rsi_state], tf_context_rules = None\<rparr>)]\<rparr>)"

definition example_indicators :: "string \<Rightarrow> IndicatorSnapshot" where
  "example_indicators tf =
     \<lparr>timeframe = tf, rsi = Some 85, macd = Some (- 1), macd_signal = None,
      macd_histogram = None, sma9 = None, sma20 = None, sma50 = None, sma150 = None,
      sma200 = None, vwap = None, atr = None, upper_band = None, lower_band = None,
      bandwidth = None, price = Some 100, volume = None, avg_volume_same_period = None,
      intraday_ATR = None\<rparr>"

definition example_symbol :: SymbolState where
  "example_symbol =
     \<lparr>symbol = ''AAPL'', sector = Some ''XLK'', symbol_price = Some 100,
      indicators_minor = Some (example_indicators ''MINOR''),
      indicators_major = Some (example_indicators ''MAJOR'')\<rparr>"

definition example_macro :: "real \<Rightarrow> MacroSnapshot" where
  "example_macro v =
     \<lparr>spy_daily_regime_score = 0, spy_intraday_regime_score = 0, vix_score = v,
      fear_greed_score = 0, macro_news_score = 0\<rparr>"


definition example_universe :: "real \<Rightarrow> UniverseState" where
  "example_universe v =
     \<lparr>symbols = [(''AAPL'', example_symbol)], macro = example_macro v,
      sectors = [(''XLK'', \<lparr>sector_name = ''XLK'', sector_score_daily = 4,
                             sector_score_intraday = 2\<rparr>)]\<rparr>"

text \<open>A component whose raw score is the constant 25.\<close>

definition example_component :: component where
  "example_component =
     \<lparr>comp_name = ''REGIME'', comp_weight = 1 / 2,
      compute_raw_score = (\<lambda>st u. Inr (25, Reason ''fixed''))\<rparr>"


text \<open>A universe of two symbols; the first has no sector.\<close>

definition example_two_symbols :: UniverseState where
  "example_two_symbols =
     (example_universe 10)
       \<lparr>symbols := [(''CASH'', example_symbol\<lparr>symbol := ''CASH'', sector := None\<rparr>),
                   (''AAPL'', example_symbol)]\<rparr>"

section \<open>Properties of safe\_eval\<close>

text \<open>An exception in any operand of a boolean operation is the result of the operation.\<close>

lemma eval_values_raises:
  "v \<in> set vs \<Longrightarrow> eval_node ip vars v = Inl e \<Longrightarrow> \<exists>e'. eval_values ip vars bop left vs = Inl e'"
proof (induction vs arbitrary: left)
  case Nil
  then show ?case by simp
next
  case (Cons a vs)
  show ?case
  proof (cases "eval_node ip vars a")
    case (Inl e0)
    then show ?thesis by simp
  next
    case (Inr x)
    with Cons.prems have "v \<in> set vs" by auto
    from Cons.IH[OF this Cons.prems(2)] Inr show ?thesis by simp
  qed
qed

lemma BoolOp_raises:
  assumes "2 \<le> length vs" and "v \<in> set vs" and "eval_node ip vars v = Inl e"
  shows "\<exists>e'. eval_node ip vars (BoolOp bop vs) = Inl e'"
proof (cases vs)
  case Nil
  then show ?thesis by simp
next
  case (Cons a rest)
  show ?thesis
  proof (cases "eval_node ip vars a")
    case (Inl e0)
    with Cons show ?thesis by simp
  next
    case (Inr x)
    with Cons assms have "v \<in> set rest" by auto
    from eval_values_raises[OF this assms(3)] obtain e' where
      "eval_values ip vars bop x rest = Inl e'" by blast
    with Cons Inr assms(1) show ?thesis by (cases rest) auto
  qed
qed

text \<open>The nodes outside the grammar and the unknown names are rejected where they stand.\<close>

lemma unsafe_nodes_raise:
  "eval_node ip vars (Call f args) = Inl ValueError"
  "eval_node ip vars (Attribute x attr) = Inl ValueError"
  "eval_node ip vars (Subscript x i) = Inl ValueError"
  "eval_node ip vars (ListComp x gens) = Inl ValueError"
  "eval_node ip vars (NamedExpr x y) = Inl ValueError"
  "eval_node ip vars (IfExp c a b) = Inl ValueError"
  "eval_node ip vars (UnaryOp uop x) = Inl ValueError"
  "eval_node ip vars (OtherNode kind xs) = Inl ValueError"
  by simp_all

lemma unknown_name_raises:
  "map_of vars ident = None \<Longrightarrow> eval_node ip vars (Name ident) = Inl ValueError"
  by simp

lemma BinOp_raises:
  "eval_node ip vars l = Inl e \<or> eval_node ip vars r = Inl e \<Longrightarrow>
   \<exists>e'. eval_node ip vars (BinOp l bop r) = Inl e'"
  by (cases "OPS_bin ip bop"; cases "eval_node ip vars l"; cases "eval_node ip vars r") auto

lemma syntax_error_is_value_error:
  "expr \<noteq> [] \<Longrightarrow> strip expr \<noteq> [] \<Longrightarrow> parse ip (strip expr) = Inl SyntaxError \<Longrightarrow>
   safe_eval ip expr vars = Inl ValueError"
  by (simp add: safe_eval_def)

text \<open>Whatever the tree, \<open>safe_eval\<close> lets no exception of the evaluation out but \<open>ValueError\<close>.\<close>

lemma safe_eval_wraps:
  "parse ip (strip expr) = Inr tree \<Longrightarrow> eval_node ip vars tree = Inl e \<Longrightarrow>
   expr \<noteq> [] \<Longrightarrow> strip expr \<noteq> [] \<Longrightarrow> safe_eval ip expr vars = Inl ValueError"
  by (simp add: safe_eval_def)

lemma OptionsFlow_safe_eval_closed:
  "safe_eval ip cond vars = Inl e \<Longrightarrow> OptionsFlow_safe_eval ip cond vars = False"
  by (simp add: OptionsFlow_safe_eval_def)

text \<open>
  C10. \<open>safe_eval\<close> does not short-circuit: as soon as one operand of an \<open>and\<close> or
  \<open>or\<close> with at least two operands raises, the whole operation raises, whatever the
  operands before it evaluated to. For the condition \<open>x is not None and x > 0\<close> with
  \<open>x\<close> bound to \<open>None\<close>, the left operand is \<open>False\<close> (where Python's \<open>and\<close> would
  stop and answer \<open>False\<close>), the right operand raises a \<open>TypeError\<close>, \<open>safe_eval\<close>
  raises \<open>ValueError\<close>, and the engine's wrapper reports no match.
\<close>

theorem safe_eval_no_short_circuit:
  assumes "parse ip ''x is not None and x > 0'' = Inr tree_x_positive"
  shows "(\<forall>vars bop vs. 2 \<le> length vs \<and> (\<exists>v \<in> set vs. \<exists>e. eval_node ip vars v = Inl e)
            \<longrightarrow> (\<exists>e'. eval_node ip vars (BoolOp bop vs) = Inl e'))
       \<and> eval_node ip [(''x'', PNone)] (Compare (Name ''x'') [IsNot] [Constant PNone]) = Inr (PBool False)
       \<and> eval_node ip [(''x'', PNone)] (Compare (Name ''x'') [Gt] [Constant (PInt 0)]) = Inl TypeError
       \<and> safe_eval ip ''x is not None and x > 0'' [(''x'', PNone)] = Inl ValueError
       \<and> OptionsFlow_safe_eval ip ''x is not None and x > 0'' [(''x'', PNone)] = False"
proof -
  have general: "\<forall>vars bop vs. 2 \<le> length vs \<and> (\<exists>v \<in> set vs. \<exists>e. eval_node ip vars v = Inl e)
            \<longrightarrow> (\<exists>e'. eval_node ip vars (BoolOp bop vs) = Inl e')"
    using BoolOp_raises by blast
  have left: "eval_node ip [(''x'', PNone)] (Compare (Name ''x'') [IsNot] [Constant PNone]) = Inr (PBool False)"
    by (simp add: op_is_def)
  have right: "eval_node ip [(''x'', PNone)] (Compare (Name ''x'') [Gt] [Constant (PInt 0)]) = Inl TypeError"
    by (simp add: op_order_def)
  have st: "strip ''x is not None and x > 0'' = ''x is not None and x > 0''"
    by (simp add: strip_def is_space_def)
  have whole: "eval_node ip [(''x'', PNone)] tree_x_positive = Inl TypeError"
    using left right by (simp add: tree_x_positive_def)
  have se: "safe_eval ip ''x is not None and x > 0'' [(''x'', PNone)] = Inl ValueError"
    using assms whole st by (simp add: safe_eval_def)
  have wr: "OptionsFlow_safe_eval ip ''x is not None and x > 0'' [(''x'', PNone)] = False"
    using se by (simp add: OptionsFlow_safe_eval_def)
  from general left right se wr show ?thesis by blast
qed

theorem safe_eval_no_short_circuit_witness:
  "parse example_interp ''x is not None and x > 0'' = Inr tree_x_positive
   \<and> safe_eval example_interp ''x is not None and x > 0'' [(''x'', PNone)] = Inl ValueError
   \<and> OptionsFlow_safe_eval example_interp ''x is not None and x > 0'' [(''x'', PNone)] = False"
proof -
  have p: "parse example_interp ''x is not None and x > 0'' = Inr tree_x_positive"
    by (simp add: example_interp_def example_parse_def)
  from safe_eval_no_short_circuit[OF p] p show ?thesis by blast
qed

section \<open>The fundamentals engine: loops in closed form\<close>

lemma metric_states_loop_closed:
  "pair_ranges states \<Longrightarrow>
   metric_states_loop ip snapshot name states (ms, ns) =
     Inr (ms @ matched_midpoints ip snapshot states,
          ns @ map (\<lambda>(n, r). name @ ''.'' @ n) (matched_rules ip snapshot states))"
proof (induction states arbitrary: ms ns)
  case Nil
  then show ?case by (simp add: matched_midpoints_def matched_rules_def)
next
  case (Cons a states)
  obtain n r where a: "a = (n, r)" by (cases a)
  from Cons.prems a have pr: "pair_ranges states" and ip: "is_pair (range_of r)"
    by (simp_all add: pair_ranges_def)
  from ip obtain low high where rng: "range_of r = ScorePair low high"
    by (cases "range_of r") auto
  then have rng': "(case score_range r of None \<Rightarrow> ScorePair (- 1) 1 | Some x \<Rightarrow> x) = ScorePair low high"
    by (simp add: range_of_def)
  show ?case
  proof (cases "state_matches ip snapshot r")
    case True
    then obtain c where c: "condition r = Some c" "c \<noteq> []" "match_condition ip snapshot c"
      by (auto simp: state_matches_def split: option.splits)
    show ?thesis
      using c rng rng' True Cons.IH[OF pr] a
      by (simp add: matched_midpoints_def matched_rules_def)
  next
    case False
    show ?thesis
    proof (cases "condition r")
      case None
      then show ?thesis using False Cons.IH[OF pr] a
        by (simp add: matched_midpoints_def matched_rules_def)
    next
      case (Some c)
      with False have "c = [] \<or> \<not> match_condition ip snapshot c"
        by (auto simp: state_matches_def)
      then show ?thesis using Some False Cons.IH[OF pr] a
        by (auto simp add: matched_midpoints_def matched_rules_def)
    qed
  qed
qed

lemma score_metric_states_closed:
  assumes "pair_ranges states"
  shows "score_metric_states ip name states snapshot =
     Inr (if matched_midpoints ip snapshot states = [] then None
          else Some (mean (matched_midpoints ip snapshot states)),
          map (\<lambda>(n, r). name @ ''.'' @ n) (matched_rules ip snapshot states))"
  using metric_states_loop_closed[OF assms, of ip snapshot name "[]" "[]"]
  by (simp add: score_metric_states_def truediv_def mean_def)

lemma timeframe_loop_closed:
  "timeframe_loop ip g tf snap ms (d, st, ws, tw) =
     (case contributing ip g tf snap ms of
        Inl e \<Rightarrow> Inl e
      | Inr cs \<Rightarrow> Inr (scores_dict d cs, st @ state_names cs,
                       ws + weighted_total cs, tw + weight_total cs))"
proof (induction ms arbitrary: d st ws tw)
  case Nil
  then show ?case
    by (simp add: scores_dict_def state_names_def weighted_total_def weight_total_def)
next
  case (Cons a ms)
  show ?case
  proof (cases "metric_step ip g tf snap a")
    case (Inl e)
    then show ?thesis by simp
  next
    case (Inr r)
    show ?thesis
    proof (cases r)
      case None
      with Inr Cons.IH show ?thesis by simp
    next
      case (Some c)
      obtain n s w names where c: "c = (n, s, w, names)" by (cases c)
      show ?thesis
        using Inr Some c Cons.IH[of "dict_set d n s" "st @ names" "ws + s * w" "tw + w"]
        by (auto simp: scores_dict_def state_names_def weighted_total_def weight_total_def
                 split: sum.splits)
    qed
  qed
qed

lemma score_timeframe_closed:
  "score_timeframe ip rb tf snap =
     (case contributing ip (groups rb) tf snap (metrics rb) of
        Inl e \<Rightarrow> Inl e
      | Inr cs \<Rightarrow>
          Inr (if weight_total cs = 0 then 0 else weighted_total cs / weight_total cs,
               scores_dict [] cs, state_names cs))"
  by (simp add: score_timeframe_def timeframe_loop_closed truediv_def split: sum.splits)

lemma metric_states_loop_error:
  "metric_states_loop ip snapshot name states acc = Inl e \<Longrightarrow> e = TypeError"
proof (induction states arbitrary: acc)
  case Nil
  then show ?case by simp
next
  case (Cons a states)
  obtain n r where a: "a = (n, r)" by (cases a)
  obtain ms ns where acc: "acc = (ms, ns)" by (cases acc)
  show ?case
    using Cons.prems Cons.IH a acc
    by (auto simp: Let_def split: option.splits if_splits sum.splits score_cfg.splits
             elim: unpack_range.elims)
qed

lemma metric_states_loop_length:
  "metric_states_loop ip snapshot name states (ms, ns) = Inr (ms', ns') \<Longrightarrow> length ms \<le> length ms'"
proof (induction states arbitrary: ms ns)
  case Nil
  then show ?case by simp
next
  case (Cons a states)
  obtain n r where a: "a = (n, r)" by (cases a)
  show ?case
    using Cons.prems Cons.IH a
    by (fastforce simp: Let_def split: option.splits if_splits sum.splits prod.splits)
qed

lemma score_metric_states_error:
  "score_metric_states ip name states snapshot = Inl e \<Longrightarrow> e = TypeError"
  by (auto simp: score_metric_states_def truediv_def
           split: sum.splits prod.splits if_splits dest: metric_states_loop_error)

lemma metric_step_error:
  "metric_step ip g tf snap entry = Inl e \<Longrightarrow> e = TypeError"
  by (auto simp: metric_step_def Let_def
           split: prod.splits option.splits sum.splits dest: score_metric_states_error)

lemma contributing_error:
  "contributing ip g tf snap ms = Inl e \<Longrightarrow> e = TypeError"
proof (induction ms)
  case Nil
  then show ?case by simp
next
  case (Cons a ms)
  then show ?case
    by (auto split: sum.splits option.splits dest: metric_step_error)
qed

lemma score_timeframe_error:
  "score_timeframe ip rb tf snap = Inl e \<Longrightarrow> e = TypeError"
  by (auto simp: score_timeframe_closed split: sum.splits dest: contributing_error)

lemma no_match_loop:
  "no_state_matches ip snapshot states \<Longrightarrow>
   metric_states_loop ip snapshot name states acc = Inr acc"
proof (induction states arbitrary: acc)
  case Nil
  then show ?case by simp
next
  case (Cons a states)
  obtain n r where a: "a = (n, r)" by (cases a)
  obtain ms ns where acc: "acc = (ms, ns)" by (cases acc)
  from Cons.prems a have nm: "\<not> state_matches ip snapshot r" and rest: "no_state_matches ip snapshot states"
    by (simp_all add: no_state_matches_def)
  show ?case
    using nm Cons.IH[OF rest] a acc
    by (auto simp: state_matches_def Let_def split: option.splits)
qed

lemma no_match_step:
  assumes "\<forall>st. map_of (metric_timeframes rule) tf = Some st \<longrightarrow>
             no_state_matches ip snapshot (case st of None \<Rightarrow> [] | Some s \<Rightarrow> s)"
  shows "metric_step ip g tf snapshot (name, rule) = Inr None"
proof (cases "map_of (metric_timeframes rule) tf")
  case None
  then show ?thesis by (simp add: metric_step_def)
next
  case (Some st)
  with assms have "no_state_matches ip snapshot (case st of None \<Rightarrow> [] | Some s \<Rightarrow> s)" by simp
  from no_match_loop[OF this] Some show ?thesis
    by (simp add: metric_step_def score_metric_states_def Let_def)
qed

lemma contributing_skip:
  "metric_step ip g tf snap e = Inr None \<Longrightarrow>
   contributing ip g tf snap (xs @ e # ys) = contributing ip g tf snap (xs @ ys)"
  by (induction xs) (auto split: sum.splits option.splits)

subsection \<open>The timeframe score as a formula over the producing metrics\<close>

lemma metric_step_formula:
  assumes "wf_metric entry"
  shows "metric_step ip g tf snap entry =
     Inr (if produces_score ip snap tf entry
          then Some (fst entry, metric_score ip snap tf entry,
                     (case metric_weight (snd entry) of None \<Rightarrow> 1 | Some x \<Rightarrow> x)
                       * group_base_weight g (metric_group (snd entry)),
                     metric_state_names ip snap tf entry)
          else None)"
proof -
  obtain name rule where e: "entry = (name, rule)" by (cases entry)
  show ?thesis
  proof (cases "map_of (metric_timeframes rule) tf")
    case None
    then show ?thesis
      by (simp add: e metric_step_def produces_score_def timeframe_states_def)
  next
    case (Some st)
    let ?states = "case st of None \<Rightarrow> [] | Some s \<Rightarrow> s"
    from Some have "(tf, st) \<in> set (metric_timeframes rule)" by (rule map_of_SomeD)
    with assms e have "pair_ranges ?states"
      by (auto simp: wf_metric_def list_all_iff)
    from score_metric_states_closed[OF this, of ip name snap] Some show ?thesis
      by (simp add: e metric_step_def produces_score_def metric_score_def
          metric_state_names_def timeframe_states_def Let_def)
  qed
qed

lemma contributing_formula:
  assumes "list_all wf_metric ms"
  shows "contributing ip g tf snap ms =
     Inr (map (\<lambda>e. (fst e, metric_score ip snap tf e,
                      (case metric_weight (snd e) of None \<Rightarrow> 1 | Some x \<Rightarrow> x)
                        * group_base_weight g (metric_group (snd e)),
                      metric_state_names ip snap tf e))
            (filter (produces_score ip snap tf) ms))"
  using assms
proof (induction ms)
  case Nil
  then show ?case by simp
next
  case (Cons a ms)
  from Cons.prems have wa: "wf_metric a" and wr: "list_all wf_metric ms" by simp_all
  show ?case
    using metric_step_formula[OF wa, of ip g tf snap] Cons.IH[OF wr]
    by simp
qed

lemma scores_dict_map:
  "scores_dict d (map (\<lambda>e. (fst e, f e, w e, n e)) es) = foldl (\<lambda>d e. dict_set d (fst e) (f e)) d es"
  by (induction es arbitrary: d) (simp_all add: scores_dict_def)

lemma state_names_map:
  "state_names (map (\<lambda>e. (fst e, f e, w e, n e)) es) = concat (map n es)"
  by (induction es) (simp_all add: state_names_def)

lemma weighted_total_map:
  "weighted_total (map (\<lambda>e. (fst e, f e, w e, n e)) es) = (\<Sum>e\<leftarrow>es. f e * w e)"
  by (induction es) (simp_all add: weighted_total_def)

lemma weight_total_map:
  "weight_total (map (\<lambda>e. (fst e, f e, w e, n e)) es) = (\<Sum>e\<leftarrow>es. w e)"
  by (induction es) (simp_all add: weight_total_def)

subsection \<open>The options-flow score in closed form\<close>

lemma options_loop_closed:
  assumes "options_pair_ranges states"
  shows "options_loop ip g names states (m, d, a) =
    Inr (m @ map fst (options_matched ip names states),
         d @ map (\<lambda>(n, r). (n, options_detail g r)) (options_matched ip names states),
         a + sum_list (map (\<lambda>(n, r). midpoint (options_range_of r) * group_weight g (group r))
               (options_matched ip names states)))"
  using assms
proof (induction states arbitrary: m d a)
  case Nil
  then show ?case by (simp add: options_matched_def)
next
  case (Cons s states)
  obtain n r where s: "s = (n, r)" by (cases s)
  from Cons.prems s have p: "is_pair (options_range_of r)" and rest: "options_pair_ranges states"
    by (simp_all add: options_pair_ranges_def)
  from p obtain low high where rng: "options_range_of r = ScorePair low high"
    by (cases "options_range_of r") simp_all
  note IH = Cons.IH[OF rest]
  show ?case
  proof (cases "OptionsFlow_safe_eval ip (options_condition r) names")
    case True
    have om: "options_matched ip names ((n, r) # states) = (n, r) # options_matched ip names states"
      using True by (simp add: options_matched_def)
    from True rng show ?thesis
      unfolding s om
      using IH
      by (simp add: Let_def options_condition_def[symmetric] options_range_of_def[symmetric]
          options_detail_def)
  next
    case False
    have om: "options_matched ip names ((n, r) # states) = options_matched ip names states"
      using False by (simp add: options_matched_def)
    from False show ?thesis
      unfolding s om
      using IH
      by (simp add: Let_def options_condition_def[symmetric] options_range_of_def[symmetric])
  qed
qed

lemma OptionsFlow_score_closed:
  assumes "options_pair_ranges (of_minor_states rb)"
  shows "OptionsFlow_score ip rb w snap =
     Inr \<lparr>of_minor_score =
             (\<Sum>(n, r)\<leftarrow>options_matched ip (allowed_names snap) (of_minor_states rb).
                 midpoint (options_range_of r) * group_weight (of_groups rb) (group r)),
          final_options_flow_score =
             (\<Sum>(n, r)\<leftarrow>options_matched ip (allowed_names snap) (of_minor_states rb).
                 midpoint (options_range_of r) * group_weight (of_groups rb) (group r)) * w,
          of_matched_states = map fst (options_matched ip (allowed_names snap) (of_minor_states rb)),
          of_state_details = map (\<lambda>(n, r). (n, options_detail (of_groups rb) r))
             (options_matched ip (allowed_names snap) (of_minor_states rb))\<rparr>"
  using options_loop_closed[OF assms, of ip "of_groups rb" "allowed_names snap" "[]" "[]" 0]
  by (simp add: OptionsFlow_score_def)

section \<open>The worked examples, evaluated\<close>

lemmas example_defs =
  example_interp_def example_eval_def example_parse_def name_cmp_def
  example_states_def example_pe_metric_def example_roe_metric_def example_rulebook_def
  example_snapshot_def

lemma example_match_cheap: "match_condition example_interp example_snapshot ''pe_ratio < 15''"
  by (simp add: match_condition_def example_defs local_env_def fundamentals_keys_def snapshot_get_def op_order_def)

lemma example_match_fair: "match_condition example_interp example_snapshot ''pe_ratio < 20''"
  by (simp add: match_condition_def example_defs local_env_def fundamentals_keys_def snapshot_get_def op_order_def)

lemma example_no_match_roe: "\<not> match_condition example_interp example_snapshot ''roe > 0.5''"
  by (simp add: match_condition_def example_defs local_env_def fundamentals_keys_def snapshot_get_def op_order_def)

lemma example_midpoints: "matched_midpoints example_interp example_snapshot example_states = [4, 6]"
  using example_match_cheap example_match_fair by (simp add: matched_midpoints_def matched_rules_def state_matches_def example_states_def range_of_def)

lemma example_metric_score: "score_metric_states example_interp ''PE_PB_VALUATION'' example_states example_snapshot
   = Inr (Some 5, [''PE_PB_VALUATION.CHEAP'', ''PE_PB_VALUATION.FAIR''])"
  using example_match_cheap example_match_fair by (simp add: score_metric_states_def example_states_def truediv_def)

lemma example_major_score: "score_timeframe example_interp example_rulebook ''MAJOR'' example_snapshot
   = Inr (5, [(''PE_PB_VALUATION'', 5)], [''PE_PB_VALUATION.CHEAP'', ''PE_PB_VALUATION.FAIR''])"
  using example_match_cheap example_match_fair example_no_match_roe
  by (simp add: score_timeframe_def metric_step_def score_metric_states_def example_states_def truediv_def
      example_rulebook_def example_pe_metric_def example_roe_metric_def group_base_weight_def Let_def)

lemma example_minor_score:
  "score_timeframe example_interp example_rulebook ''MINOR'' example_snapshot = Inr (0, [], [])"
  by (simp add: score_timeframe_def metric_step_def score_metric_states_def
      example_rulebook_def example_pe_metric_def example_roe_metric_def group_base_weight_def Let_def)

lemma hr1: "match_condition example_interp example_snapshot_high_roe ''pe_ratio < 15''"
  by (simp add: match_condition_def example_interp_def example_eval_def name_cmp_def
      example_snapshot_high_roe_def local_env_def fundamentals_keys_def snapshot_get_def op_order_def)

lemma hr2: "match_condition example_interp example_snapshot_high_roe ''pe_ratio < 20''"
  by (simp add: match_condition_def example_interp_def example_eval_def name_cmp_def
      example_snapshot_high_roe_def local_env_def fundamentals_keys_def snapshot_get_def op_order_def)

lemma hr3: "match_condition example_interp example_snapshot_high_roe ''roe > 0.5''"
  by (simp add: match_condition_def example_interp_def example_eval_def name_cmp_def
      example_snapshot_high_roe_def local_env_def fundamentals_keys_def snapshot_get_def op_order_def)

lemma producing_major:
  "producing example_interp example_snapshot_high_roe ''MAJOR'' example_rulebook
     = [(''PE_PB_VALUATION'', example_pe_metric), (''ROE_QUALITY'', example_roe_metric)]"
  using hr1 hr2 hr3
  by (simp add: producing_def produces_score_def timeframe_states_def matched_midpoints_def
      matched_rules_def state_matches_def example_rulebook_def example_pe_metric_def
      example_roe_metric_def example_states_def)

lemma producing_minor:
  "producing example_interp example_snapshot_high_roe ''MINOR'' example_rulebook = []"
  by (simp add: producing_def produces_score_def timeframe_states_def matched_midpoints_def
      matched_rules_def state_matches_def example_rulebook_def example_pe_metric_def
      example_roe_metric_def example_states_def)

lemma ms_pe: "metric_score example_interp example_snapshot_high_roe ''MAJOR'' (''PE_PB_VALUATION'', example_pe_metric) = 5"
  using hr1 hr2
  by (simp add: metric_score_def timeframe_states_def matched_midpoints_def matched_rules_def
      state_matches_def example_pe_metric_def example_states_def range_of_def mean_def)

lemma ms_roe: "metric_score example_interp example_snapshot_high_roe ''MAJOR'' (''ROE_QUALITY'', example_roe_metric) = 7"
  using hr3
  by (simp add: metric_score_def timeframe_states_def matched_midpoints_def matched_rules_def
      state_matches_def example_roe_metric_def range_of_def mean_def)

lemma names_pe: "metric_state_names example_interp example_snapshot_high_roe ''MAJOR'' (''PE_PB_VALUATION'', example_pe_metric)
    = [''PE_PB_VALUATION.CHEAP'', ''PE_PB_VALUATION.FAIR'']"
  using hr1 hr2
  by (simp add: metric_state_names_def timeframe_states_def matched_rules_def
      state_matches_def example_pe_metric_def example_states_def)

lemma names_roe: "metric_state_names example_interp example_snapshot_high_roe ''MAJOR'' (''ROE_QUALITY'', example_roe_metric)
    = [''ROE_QUALITY.HIGH'']"
  using hr3
  by (simp add: metric_state_names_def timeframe_states_def matched_rules_def
      state_matches_def example_roe_metric_def)

lemma weights_ex:
  "(case metric_weight example_pe_metric of None \<Rightarrow> 1 | Some x \<Rightarrow> x)
     * group_base_weight (groups example_rulebook) (metric_group example_pe_metric) = 11 / 10"
  "(case metric_weight example_roe_metric of None \<Rightarrow> 1 | Some x \<Rightarrow> x)
     * group_base_weight (groups example_rulebook) (metric_group example_roe_metric) = 88 / 100"
  by (simp_all add: example_pe_metric_def example_roe_metric_def example_rulebook_def group_base_weight_def)

section \<open>Metric and timeframe scores\<close>

lemma contributing_wf:
  assumes "list_all wf_metric ms"
  shows "\<exists>cs. contributing ip g tf snap ms = Inr cs"
  using assms
proof (induction ms)
  case Nil
  then show ?case by simp
next
  case (Cons a ms)
  obtain name rule where a: "a = (name, rule)" by (cases a)
  from Cons.prems a have wa: "wf_metric (name, rule)" and wr: "list_all wf_metric ms" by simp_all
  from Cons.IH[OF wr] obtain cs where cs: "contributing ip g tf snap ms = Inr cs" by blast
  have "\<exists>r. metric_step ip g tf snap (name, rule) = Inr r"
  proof (cases "map_of (metric_timeframes rule) tf")
    case None
    then show ?thesis by (simp add: metric_step_def)
  next
    case (Some st)
    from Some have "(tf, st) \<in> set (metric_timeframes rule)" by (rule map_of_SomeD)
    with wa have "pair_ranges (case st of None \<Rightarrow> [] | Some s \<Rightarrow> s)"
      by (auto simp: wf_metric_def list_all_iff)
    from score_metric_states_closed[OF this, of ip name snap] Some show ?thesis
      by (simp add: metric_step_def Let_def)
  qed
  then obtain r where "metric_step ip g tf snap (name, rule) = Inr r" by blast
  with cs a show ?case by (cases r) auto
qed

lemma wf_example: "wf_rulebook example_rulebook"
  by (simp add: wf_rulebook_def wf_metric_def pair_ranges_def range_of_def example_defs)

lemma contrib_example:
  "contributing example_interp (groups example_rulebook) ''MAJOR'' example_snapshot (metrics example_rulebook)
     = Inr [(''PE_PB_VALUATION'', 5, 11 / 10, [''PE_PB_VALUATION.CHEAP'', ''PE_PB_VALUATION.FAIR''])]"
  using example_match_cheap example_match_fair example_no_match_roe
  by (simp add: metric_step_def score_metric_states_def example_states_def truediv_def
      example_rulebook_def example_pe_metric_def example_roe_metric_def group_base_weight_def Let_def)

text \<open>
  C1, as amended. In the fundamentals engine a metric none of whose states matches in a
  timeframe (or that has no entry for the timeframe) is not among the metrics that
  contribute to the timeframe's weighted sum: neither its score nor its weight enters,
  and the timeframe result of the rule table with the metric is the result of the rule
  table without it.
\<close>

theorem non_matching_metric_excluded:
  assumes "\<forall>st. map_of (metric_timeframes rule) tf = Some st \<longrightarrow>
             no_state_matches ip snapshot (case st of None \<Rightarrow> [] | Some s \<Rightarrow> s)"
  shows "contributing ip g tf snapshot (xs @ (name, rule) # ys) = contributing ip g tf snapshot (xs @ ys)
       \<and> score_timeframe ip (rb\<lparr>metrics := xs @ (name, rule) # ys\<rparr>) tf snapshot
          = score_timeframe ip (rb\<lparr>metrics := xs @ ys\<rparr>) tf snapshot"
proof -
  have step: "metric_step ip g' tf snapshot (name, rule) = Inr None" for g'
    by (rule no_match_step[OF assms])
  have 1: "contributing ip g tf snapshot (xs @ (name, rule) # ys) = contributing ip g tf snapshot (xs @ ys)"
    by (rule contributing_skip[OF step])
  have 2: "score_timeframe ip (rb\<lparr>metrics := xs @ (name, rule) # ys\<rparr>) tf snapshot
          = score_timeframe ip (rb\<lparr>metrics := xs @ ys\<rparr>) tf snapshot"
    using contributing_skip[OF step, of "groups rb" xs ys] by (simp add: score_timeframe_closed)
  from 1 2 show ?thesis by blast
qed

theorem non_matching_metric_excluded_witness:
  "no_state_matches example_interp example_snapshot
     [(''HIGH'', \<lparr>condition = Some ''roe > 0.5'', score_range = Some (ScorePair 6 8), group = None\<rparr>)]
   \<and> score_timeframe example_interp example_rulebook ''MAJOR'' example_snapshot
      = score_timeframe example_interp
          (example_rulebook\<lparr>metrics := [(''PE_PB_VALUATION'', example_pe_metric)]\<rparr>) ''MAJOR'' example_snapshot
   \<and> score_timeframe example_interp example_rulebook ''MAJOR'' example_snapshot
      = Inr (5, [(''PE_PB_VALUATION'', 5)], [''PE_PB_VALUATION.CHEAP'', ''PE_PB_VALUATION.FAIR''])"
proof -
  have n: "no_state_matches example_interp example_snapshot
     [(''HIGH'', \<lparr>condition = Some ''roe > 0.5'', score_range = Some (ScorePair 6 8), group = None\<rparr>)]"
    using example_no_match_roe by (simp add: no_state_matches_def state_matches_def)
  have h: "\<forall>st. map_of (metric_timeframes example_roe_metric) ''MAJOR'' = Some st \<longrightarrow>
             no_state_matches example_interp example_snapshot (case st of None \<Rightarrow> [] | Some s \<Rightarrow> s)"
    using n by (simp add: example_roe_metric_def)
  have eq: "example_rulebook = example_rulebook\<lparr>metrics := [(''PE_PB_VALUATION'', example_pe_metric)] @ (''ROE_QUALITY'', example_roe_metric) # []\<rparr>"
    by (simp add: example_rulebook_def)
  from non_matching_metric_excluded[OF h, of "groups example_rulebook" "[(''PE_PB_VALUATION'', example_pe_metric)]" "''ROE_QUALITY''" "[]" example_rulebook]
  have "score_timeframe example_interp (example_rulebook\<lparr>metrics := [(''PE_PB_VALUATION'', example_pe_metric)] @ (''ROE_QUALITY'', example_roe_metric) # []\<rparr>) ''MAJOR'' example_snapshot
      = score_timeframe example_interp (example_rulebook\<lparr>metrics := [(''PE_PB_VALUATION'', example_pe_metric)] @ []\<rparr>) ''MAJOR'' example_snapshot"
    by blast
  with eq have 1: "score_timeframe example_interp example_rulebook ''MAJOR'' example_snapshot
      = score_timeframe example_interp
          (example_rulebook\<lparr>metrics := [(''PE_PB_VALUATION'', example_pe_metric)]\<rparr>) ''MAJOR'' example_snapshot"
    by simp
  from n 1 example_major_score show ?thesis by blast
qed

section \<open>The component system and the master engines: lemmas and examples\<close>

lemmas tech_defs =
  Technical_compute_raw_score_def score_indicator_timeframe_def evaluate_condition_def
  indicator_env_def opt_float_def example_indicators_def example_symbol_def
  rsi_indicator_def macd_indicator_def vwap_indicator_def rsi_minor_only_def
  rsi_state_def macd_state_def both_timeframes_def truediv_def
  example_interp_def example_eval_def name_cmp_def op_order_def strip_def is_space_def

lemma example_rsi_matches: "evaluate_condition example_interp ''rsi >= 80'' (example_indicators tf) example_symbol"
  by (simp add: tech_defs)

lemma example_macd_no_match: "\<not> evaluate_condition example_interp ''macd > 0'' (example_indicators tf) example_symbol"
  by (simp add: tech_defs)

lemma example_rsi_timeframe: "score_indicator_timeframe example_interp ''RSI'' (snd rsi_indicator) example_symbol
     (Some (example_indicators tf)) ''MINOR'' = Inr (Some 4, MatchedStates [(''EXTREME_OVERBOUGHT'', 4)] 4)"
  using example_rsi_matches[of tf]
  by (simp add: score_indicator_timeframe_def rsi_indicator_def both_timeframes_def rsi_state_def truediv_def)

lemma example_macd_timeframe: "score_indicator_timeframe example_interp ''MACD'' (snd macd_indicator) example_symbol
     (Some (example_indicators tf)) ''MINOR'' = Inr (Some 0, Reason ''no_state_matched'')"
  using example_macd_no_match[of tf]
  by (simp add: score_indicator_timeframe_def macd_indicator_def both_timeframes_def macd_state_def truediv_def)

lemma technical_rsi_macd: "Technical_compute_raw_score example_interp [rsi_indicator, macd_indicator] example_symbol u
   = Inr (24 / 13, IndicatorsBreakdown
        [\<lparr>ib_indicator = ''RSI'', ib_group = ''MOMENTUM'', ib_minor_score = Some 4,
          ib_major_score = Some 4, ib_combined = 4\<rparr>,
         \<lparr>ib_indicator = ''MACD'', ib_group = ''MOMENTUM'', ib_minor_score = Some 0,
          ib_major_score = Some 0, ib_combined = 0\<rparr>] (24 / 13))"
  using example_rsi_matches example_macd_no_match
  by (simp add: Technical_compute_raw_score_def score_indicator_timeframe_def example_symbol_def
      rsi_indicator_def macd_indicator_def rsi_state_def macd_state_def both_timeframes_def truediv_def Let_def)

lemma technical_rsi: "Technical_compute_raw_score example_interp [rsi_indicator] example_symbol u
   = Inr (4, IndicatorsBreakdown
        [\<lparr>ib_indicator = ''RSI'', ib_group = ''MOMENTUM'', ib_minor_score = Some 4,
          ib_major_score = Some 4, ib_combined = 4\<rparr>] 4)"
  using example_rsi_matches example_macd_no_match
  by (simp add: Technical_compute_raw_score_def score_indicator_timeframe_def example_symbol_def
      rsi_indicator_def macd_indicator_def rsi_state_def macd_state_def both_timeframes_def truediv_def Let_def)

lemma technical_rsi_vwap: "Technical_compute_raw_score example_interp [rsi_indicator, vwap_indicator] example_symbol u
   = Inr (8 / 5, IndicatorsBreakdown
        [\<lparr>ib_indicator = ''RSI'', ib_group = ''MOMENTUM'', ib_minor_score = Some 4,
          ib_major_score = Some 4, ib_combined = 4\<rparr>,
         \<lparr>ib_indicator = ''VWAP'', ib_group = ''PRICE'', ib_minor_score = None,
          ib_major_score = None, ib_combined = 0\<rparr>] (8 / 5))"
  using example_rsi_matches example_macd_no_match
  by (simp add: Technical_compute_raw_score_def score_indicator_timeframe_def example_symbol_def
      rsi_indicator_def vwap_indicator_def rsi_state_def macd_state_def both_timeframes_def truediv_def Let_def)

lemma technical_rsi_minor_only: "Technical_compute_raw_score example_interp [rsi_minor_only] example_symbol u
   = Inr (12 / 5, IndicatorsBreakdown
        [\<lparr>ib_indicator = ''RSI'', ib_group = ''MOMENTUM'', ib_minor_score = Some 4,
          ib_major_score = None, ib_combined = 12 / 5\<rparr>] (12 / 5))"
  using example_rsi_matches example_macd_no_match
  by (simp add: Technical_compute_raw_score_def score_indicator_timeframe_def example_symbol_def
      rsi_minor_only_def rsi_state_def macd_state_def both_timeframes_def truediv_def Let_def)

lemma score_components_length:
  "score_components cs st u = Inr xs \<Longrightarrow> length xs = length cs"
  by (induction cs arbitrary: xs) (auto split: sum.splits)

lemma score_symbol_clamped:
  assumes "score_symbol c st u = Inr x"
  shows "\<exists>raw det. compute_raw_score c st u = Inr (raw, det)
          \<and> raw_score x = max (- 10) (min 10 raw)
          \<and> weighted_score x = raw_score x * comp_weight c
          \<and> weight x = comp_weight c
          \<and> - 10 \<le> raw_score x \<and> raw_score x \<le> 10"
  using assms by (auto simp: score_symbol_def Let_def split: sum.splits prod.splits)

lemma score_components_each:
  "score_components cs st u = Inr xs \<Longrightarrow>
   list_all2 (\<lambda>c x. score_symbol c st u = Inr x) cs xs"
  by (induction cs arbitrary: xs) (auto split: sum.splits)

lemma score_symbols_total:
  "score_symbols cs u entries = Inr rs \<Longrightarrow>
   \<forall>r \<in> set rs. total_score r = sum_list (map weighted_score (components r))
        \<and> direction r = universe_direction (total_score r)
        \<and> (\<exists>st. (result_symbol r, st) \<in> set entries \<and> score_components cs st u = Inr (components r))"
proof (induction entries arbitrary: rs)
  case Nil
  then show ?case by simp
next
  case (Cons a entries)
  obtain n st where a: "a = (n, st)" by (cases a)
  from Cons.prems a obtain r rs' where r: "score_one_symbol cs u (n, st) = Inr r"
    and rs': "score_symbols cs u entries = Inr rs'" and rs: "rs = r # rs'"
    by (auto split: sum.splits)
  from r have "total_score r = sum_list (map weighted_score (components r))
        \<and> direction r = universe_direction (total_score r)
        \<and> result_symbol r = n \<and> score_components cs st u = Inr (components r)"
    by (auto simp: score_one_symbol_def Let_def split: sum.splits)
  with Cons.IH[OF rs'] rs a show ?case by auto
qed

lemma score_universe_total:
  assumes "score_universe cs u = Inr rs"
  shows "\<forall>r \<in> set rs. total_score r = sum_list (map weighted_score (components r))
        \<and> direction r = universe_direction (total_score r)
        \<and> (\<exists>st. (result_symbol r, st) \<in> set (symbols u) \<and> score_components cs st u = Inr (components r))"
proof -
  from assms obtain rs0 where rs0: "score_symbols cs u (symbols u) = Inr rs0"
    and rs: "rs = sort_key (\<lambda>r. - \<bar>total_score r\<bar>) rs0"
    by (auto simp: score_universe_def split: sum.splits)
  from rs have "set rs = set rs0" by simp
  with score_symbols_total[OF rs0] show ?thesis by simp
qed

lemma dict_set_fresh: "k \<notin> fst ` set d \<Longrightarrow> dict_set d k v = d @ [(k, v)]"
  by (induction d) auto

lemma clamp_range: "lo \<le> hi \<Longrightarrow> lo \<le> clamp v lo hi \<and> clamp v lo hi \<le> hi"
  by (auto simp: clamp_def)

lemma modules_loop_inv:
  assumes "distinct (map fst scores @ ms)" "tot = sum_list (map snd scores)" "cnt = length scores"
    "used = map fst scores" "\<forall>(m, v) \<in> set scores. - 10 \<le> v \<and> v \<le> 10"
    "modules_loop config mr ms (scores, used, tot, cnt) = (scores', used', tot', cnt')"
  shows "tot' = sum_list (map snd scores') \<and> cnt' = length scores' \<and> used' = map fst scores'
         \<and> (\<forall>(m, v) \<in> set scores'. - 10 \<le> v \<and> v \<le> 10)"
  using assms
proof (induction ms arbitrary: scores used tot cnt)
  case Nil
  then show ?case by auto
next
  case (Cons m ms)
  have d': "distinct (map fst scores @ ms)" using Cons.prems(1) by simp
  have fresh: "m \<notin> fst ` set scores" using Cons.prems(1) by auto
  show ?case
  proof (cases "is_module_enabled config m")
    case False
    with Cons.prems(6) have "modules_loop config mr ms (scores, used, tot, cnt) = (scores', used', tot', cnt')"
      by simp
    from Cons.IH[OF d' Cons.prems(2-5) this] show ?thesis .
  next
    case True
    note en = True
    show ?thesis
    proof (cases "map_of mr m")
      case None
      with en Cons.prems(6) have "modules_loop config mr ms (scores, used, tot, cnt) = (scores', used', tot', cnt')"
        by simp
      from Cons.IH[OF d' Cons.prems(2-5) this] show ?thesis .
    next
      case (Some rd)
      note rd = Some
      show ?thesis
      proof (cases "rd = [] \<or> map_of module_score_keys m = None
                    \<or> (\<exists>k. map_of module_score_keys m = Some k \<and> map_of rd k = None)")
        case True
        with en rd Cons.prems(6) have "modules_loop config mr ms (scores, used, tot, cnt) = (scores', used', tot', cnt')"
          by (auto split: option.splits)
        from Cons.IH[OF d' Cons.prems(2-5) this] show ?thesis .
      next
        case False
        then obtain k raw where k: "rd \<noteq> []" "map_of module_score_keys m = Some k" "map_of rd k = Some raw"
          by auto
        let ?c = "clamp raw (- 10) 10"
        let ?s = "scores @ [(m, ?c)]"
        from en rd k Cons.prems(6) fresh
        have run: "modules_loop config mr ms (?s, used @ [m], tot + ?c, Suc cnt) = (scores', used', tot', cnt')"
          by (simp add: dict_set_fresh Let_def)
        have 1: "distinct (map fst ?s @ ms)" using Cons.prems(1) by auto
        have 2: "tot + ?c = sum_list (map snd ?s)" using Cons.prems(2) by simp
        have 3: "Suc cnt = length ?s" using Cons.prems(3) by simp
        have 4: "used @ [m] = map fst ?s" using Cons.prems(4) by simp
        have 5: "\<forall>(m, v) \<in> set ?s. - 10 \<le> v \<and> v \<le> 10"
          using Cons.prems(5) clamp_range[of "- 10" 10 raw] by auto
        from Cons.IH[OF 1 2 3 4 5 run] show ?thesis .
      qed
    qed
  qed
qed

lemma Master_score_symbol_mean:
  "\<exists>res. Master_score_symbol config s mr = Inr res
     \<and> final_master_score res =
         clamp (if module_scores res = [] then 0 else mean (map snd (module_scores res))) (- 10) 10
     \<and> (\<forall>(m, v) \<in> set (module_scores res). - 10 \<le> v \<and> v \<le> 10)
     \<and> - 10 \<le> final_master_score res \<and> final_master_score res \<le> 10
     \<and> master_direction res = direction_from_score config (final_master_score res)"
proof -
  obtain scores used tot cnt where run:
    "modules_loop config mr module_order ([], [], 0, 0) = (scores, used, tot, cnt)"
    by (cases "modules_loop config mr module_order ([], [], 0, 0)") auto
  have d: "distinct (map fst ([]::(string \<times> real) list) @ module_order)"
    by (simp add: module_order_def)
  from modules_loop_inv[OF d _ _ _ _ run]
  have inv: "tot = sum_list (map snd scores)" "cnt = length scores" "used = map fst scores"
    "\<forall>(m, v) \<in> set scores. - 10 \<le> v \<and> v \<le> 10" by auto
  show ?thesis
    using run inv clamp_range[of "- 10" 10]
    by (auto simp: Master_score_symbol_def Let_def truediv_def mean_def)
qed

lemmas universe_defs =
  score_universe_def score_one_symbol_def score_symbol_def
  MacroScoringComponent_def SectorScoringComponent_def Macro_compute_raw_score_def
  Sector_compute_raw_score_def example_universe_def example_macro_def example_symbol_def
  universe_direction_def Let_def

lemma universe_boundary: "score_universe [MacroScoringComponent (1 / 4)] (example_universe 10)
  = Inr [\<lparr>result_symbol = ''AAPL'', total_score = 1 / 2, direction = ''NEUTRAL'',
     components = [
       \<lparr>component_name = ''MACRO'', raw_score = 2, weight = 1 / 4, weighted_score = 1 / 2,
        cs_details = Numbers [(''spy_daily_regime_score'', 0), (''spy_intraday_regime_score'', 0),
          (''vix_score'', 10), (''fear_greed_score'', 0), (''macro_news_score'', 0),
          (''combined_macro_score'', 2)]\<rparr>]\<rparr>]"
  by (simp add: universe_defs)

lemma universe_strong: "score_universe [MacroScoringComponent 1, SectorScoringComponent 1] (example_universe 100)
  = Inr [\<lparr>result_symbol = ''AAPL'', total_score = 13, direction = ''LONG'',
     components = [
       \<lparr>component_name = ''MACRO'', raw_score = 10, weight = 1, weighted_score = 10,
        cs_details = Numbers [(''spy_daily_regime_score'', 0), (''spy_intraday_regime_score'', 0),
          (''vix_score'', 100), (''fear_greed_score'', 0), (''macro_news_score'', 0),
          (''combined_macro_score'', 10)]\<rparr>,
       \<lparr>component_name = ''SECTOR'', raw_score = 3, weight = 1, weighted_score = 3,
        cs_details = SectorNumbers ''XLK'' [(''daily'', 4), (''intraday'', 2), (''combined_sector_score'', 3)]\<rparr>]\<rparr>]"
  by (simp add: universe_defs)

lemma master_two_modules: "Master_score_symbol DEFAULT_CONFIG ''AAPL''
     [(''macro'', [(''final_macro_score'', 4)]), (''news'', [(''final_news_score'', 2)])]
   = Inr \<lparr>master_symbol = ''AAPL'', module_scores = [(''macro'', 4), (''news'', 2)],
          final_master_score = 3, master_direction = ''LONG'', abs_strength = 3,
          used_modules = [''macro'', ''news'']\<rparr>"
  by (simp add: Master_score_symbol_def module_order_def module_score_keys_def is_module_enabled_def
      DEFAULT_CONFIG_def clamp_def truediv_def direction_from_score_def Let_def)

lemma master_one_module: "Master_score_symbol DEFAULT_CONFIG ''AAPL''
     [(''macro'', [(''final_macro_score'', 25)])]
   = Inr \<lparr>master_symbol = ''AAPL'', module_scores = [(''macro'', 10)],
          final_master_score = 10, master_direction = ''LONG'', abs_strength = 10,
          used_modules = [''macro'']\<rparr>"
  by (simp add: Master_score_symbol_def module_order_def module_score_keys_def is_module_enabled_def
      DEFAULT_CONFIG_def clamp_def truediv_def direction_from_score_def Let_def)

lemmas options_defs =
  OptionsFlow_score_def OptionsFlow_safe_eval_def safe_eval_def allowed_names_def
  example_interp_def example_parse_def tree_pcr_low_def tree_uoa_call_def tree_abs_gamma_def
  example_options_rulebook_def example_options_snapshot_def example_gamma_rulebook_def
  example_gamma_snapshot_def group_weight_def op_order_def strip_def is_space_def Let_def

lemma options_two_states: "OptionsFlow_score example_interp example_options_rulebook (105 / 100) example_options_snapshot
  = Inr \<lparr>of_minor_score = 171 / 10, final_options_flow_score = 3591 / 200,
     of_matched_states = [''CALL_IMBALANCE_EXTREME_BULL'', ''UOA_MASSIVE_CALL_SWEEPS''],
     of_state_details = [
       (''CALL_IMBALANCE_EXTREME_BULL'', \<lparr>sd_condition = ''put_call_ratio < 0.6'', sd_avg_score = 15 / 2,
          sd_weighted = 15 / 2, sd_base_weight = 1, sd_group = Some ''PUT_CALL_IMBALANCE''\<rparr>),
       (''UOA_MASSIVE_CALL_SWEEPS'', \<lparr>sd_condition = ''uoa_call_notional_mult >= 5.0'', sd_avg_score = 8,
          sd_weighted = 48 / 5, sd_base_weight = 12 / 10, sd_group = Some ''UOA''\<rparr>)]\<rparr>"
  by (simp add: options_defs)

lemma options_gamma: "OptionsFlow_score example_interp example_gamma_rulebook (105 / 100) example_gamma_snapshot
  = Inr \<lparr>of_minor_score = 0, final_options_flow_score = 0, of_matched_states = [], of_state_details = []\<rparr>"
  by (simp add: options_defs)

lemma options_abs_call: "safe_eval example_interp ''abs(gamma_exposure) >= gamma_critical_threshold''
     (allowed_names example_gamma_snapshot) = Inl ValueError"
  by (simp add: options_defs)

lemma fundamentals_example: "Fundamentals_score example_interp example_rulebook example_snapshot
  = Inr \<lparr>minor_score = 0, major_score = 5, final_fundamentals_score = 375 / 100,
      metric_scores_of = [(''PE_PB_VALUATION'', 5)],
      matched_states_of = [''PE_PB_VALUATION.CHEAP'', ''PE_PB_VALUATION.FAIR'']\<rparr>"
  using example_major_score example_minor_score
  by (simp add: Fundamentals_score_def combine_minor_major_def Fundamentals_weight_def Let_def)

subsection \<open>The results of \<open>score_universe\<close> and of \<open>score_symbol\<close> in closed form\<close>

lemma score_components_weighted:
  "score_components cs st u = Inr xs \<Longrightarrow>
   map weighted_score xs = map (\<lambda>c. weighted_contribution c st u) cs
   \<and> map component_name xs = map comp_name cs
   \<and> map weight xs = map comp_weight cs"
proof (induction cs arbitrary: xs)
  case Nil
  then show ?case by simp
next
  case (Cons c cs)
  from Cons.prems obtain x xs' where x: "score_symbol c st u = Inr x"
    and xs': "score_components cs st u = Inr xs'" and xs: "xs = x # xs'"
    by (auto split: sum.splits)
  from x have "weighted_score x = weighted_contribution c st u \<and> component_name x = comp_name c
      \<and> weight x = comp_weight c"
    by (auto simp: score_symbol_def weighted_contribution_def Let_def split: sum.splits prod.splits)
  with Cons.IH[OF xs'] xs show ?case by simp
qed

lemma score_components_returns:
  "list_all (\<lambda>c. \<not> isl (compute_raw_score c st u)) cs \<Longrightarrow> \<exists>xs. score_components cs st u = Inr xs"
proof (induction cs)
  case Nil
  then show ?case by simp
next
  case (Cons c cs)
  from Cons.prems obtain raw det where "compute_raw_score c st u = Inr (raw, det)"
    by (cases "compute_raw_score c st u") auto
  then obtain x where "score_symbol c st u = Inr x" by (simp add: score_symbol_def Let_def)
  moreover from Cons obtain xs where "score_components cs st u = Inr xs" by auto
  ultimately show ?case by simp
qed

lemma score_symbols_closed:
  "score_symbols cs u entries = Inr rs \<Longrightarrow>
   map (\<lambda>r. (result_symbol r, total_score r)) rs
     = map (\<lambda>(n, st). (n, sum_list (map (\<lambda>c. weighted_contribution c st u) cs))) entries"
proof (induction entries arbitrary: rs)
  case Nil
  then show ?case by simp
next
  case (Cons a entries)
  obtain n st where a: "a = (n, st)" by (cases a)
  from Cons.prems a obtain r rs' where r: "score_one_symbol cs u (n, st) = Inr r"
    and rs': "score_symbols cs u entries = Inr rs'" and rs: "rs = r # rs'"
    by (auto split: sum.splits)
  from r obtain xs where xs: "score_components cs st u = Inr xs"
    and rr: "result_symbol r = n" "total_score r = sum_list (map weighted_score xs)"
    by (auto simp: score_one_symbol_def Let_def split: sum.splits)
  from score_components_weighted[OF xs] rr
  have "(result_symbol r, total_score r) = (n, sum_list (map (\<lambda>c. weighted_contribution c st u) cs))"
    by simp
  with Cons.IH[OF rs'] rs a show ?case by simp
qed

lemma score_symbols_returns:
  "list_all (\<lambda>(n, st). list_all (\<lambda>c. \<not> isl (compute_raw_score c st u)) cs) entries \<Longrightarrow>
   \<exists>rs. score_symbols cs u entries = Inr rs"
proof (induction entries)
  case Nil
  then show ?case by simp
next
  case (Cons a entries)
  obtain n st where a: "a = (n, st)" by (cases a)
  from Cons.prems a have "list_all (\<lambda>c. \<not> isl (compute_raw_score c st u)) cs" by simp
  from score_components_returns[OF this] obtain xs where "score_components cs st u = Inr xs" by blast
  then obtain r where "score_one_symbol cs u (n, st) = Inr r"
    by (simp add: score_one_symbol_def Let_def)
  moreover from Cons obtain rs where "score_symbols cs u entries = Inr rs" by auto
  ultimately show ?case using a by simp
qed

lemma map_insort_key:
  "map f (insort_key (\<lambda>x. k (f x)) a xs) = insort_key k (f a) (map f xs)"
  by (induction xs) auto

lemma map_sort_key:
  "map f (sort_key (\<lambda>x. k (f x)) xs) = sort_key k (map f xs)"
  by (induction xs) (simp_all add: map_insort_key)

lemma score_universe_closed:
  assumes "score_universe cs u = Inr rs"
  shows "map (\<lambda>r. (result_symbol r, total_score r)) rs
     = sort_key (\<lambda>p. - \<bar>snd p\<bar>)
         (map (\<lambda>(n, st). (n, sum_list (map (\<lambda>c. weighted_contribution c st u) cs))) (symbols u))"
proof -
  from assms obtain rs0 where rs0: "score_symbols cs u (symbols u) = Inr rs0"
    and rs: "rs = sort_key (\<lambda>r. - \<bar>total_score r\<bar>) rs0"
    by (auto simp: score_universe_def split: sum.splits)
  have "map (\<lambda>r. (result_symbol r, total_score r)) (sort_key (\<lambda>r. - \<bar>total_score r\<bar>) rs0)
      = sort_key (\<lambda>p. - \<bar>snd p\<bar>) (map (\<lambda>r. (result_symbol r, total_score r)) rs0)"
    using map_sort_key[of "\<lambda>r. (result_symbol r, total_score r)" "\<lambda>p. - \<bar>snd p\<bar>" rs0] by simp
  with rs score_symbols_closed[OF rs0] show ?thesis by simp
qed

lemma score_universe_returns:
  "all_return cs u \<Longrightarrow> \<exists>rs. score_universe cs u = Inr rs"
  using score_symbols_returns[of u cs "symbols u"]
  by (auto simp: all_return_def score_universe_def)


lemma supplied_scores_Cons:
  "List.map_filter (\<lambda>m. map_option (\<lambda>v. (m, v)) (supplied_score config mr m)) (m # ms)
   = (case supplied_score config mr m of None \<Rightarrow> [] | Some v \<Rightarrow> [(m, v)])
     @ List.map_filter (\<lambda>m. map_option (\<lambda>v. (m, v)) (supplied_score config mr m)) ms"
  by (simp add: List.map_filter_simps split: option.splits)

lemma modules_loop_closed:
  assumes "distinct (map fst scores @ ms)"
  shows "modules_loop config mr ms (scores, used, tot, cnt) =
     (let sup = List.map_filter (\<lambda>m. map_option (\<lambda>v. (m, v)) (supplied_score config mr m)) ms in
      (scores @ map (\<lambda>(m, v). (m, clamp v (- 10) 10)) sup,
       used @ map fst sup,
       tot + sum_list (map (\<lambda>(m, v). clamp v (- 10) 10) sup),
       cnt + length sup))"
  using assms
proof (induction ms arbitrary: scores used tot cnt)
  case Nil
  then show ?case by (simp add: List.map_filter_simps)
next
  case (Cons m ms)
  have d': "distinct (map fst scores @ ms)" using Cons.prems by simp
  have fresh: "m \<notin> fst ` set scores" using Cons.prems by auto
  show ?case
  proof (cases "supplied_score config mr m")
    case None
    then have "modules_loop config mr (m # ms) (scores, used, tot, cnt)
        = modules_loop config mr ms (scores, used, tot, cnt)"
      by (auto simp: supplied_score_def split: if_splits option.splits)
    with Cons.IH[OF d'] None show ?thesis
      by (simp add: supplied_scores_Cons Let_def)
  next
    case (Some v)
    let ?c = "clamp v (- 10) 10"
    from Some have "modules_loop config mr (m # ms) (scores, used, tot, cnt)
        = modules_loop config mr ms (dict_set scores m ?c, used @ [m], tot + ?c, Suc cnt)"
      by (auto simp: supplied_score_def Let_def split: if_splits option.splits)
    then have run: "modules_loop config mr (m # ms) (scores, used, tot, cnt)
        = modules_loop config mr ms (scores @ [(m, ?c)], used @ [m], tot + ?c, Suc cnt)"
      using fresh by (simp add: dict_set_fresh)
    have d'': "distinct (map fst (scores @ [(m, ?c)]) @ ms)" using Cons.prems by auto
    show ?thesis
      unfolding run using Cons.IH[OF d''] Some
      by (simp add: supplied_scores_Cons Let_def)
  qed
qed

lemma Master_score_symbol_closed:
  "Master_score_symbol config s mr =
     (let clamped = map (\<lambda>(m, v). (m, clamp v (- 10) 10)) (supplied_scores config mr);
          final = clamp (if clamped = [] then 0 else mean (map snd clamped)) (- 10) 10
      in Inr \<lparr>master_symbol = s, module_scores = clamped, final_master_score = final,
              master_direction = direction_from_score config final,
              abs_strength = \<bar>final\<bar>, used_modules = map fst clamped\<rparr>)"
proof -
  have d: "distinct (map fst ([]::(string \<times> real) list) @ module_order)"
    by (simp add: module_order_def)
  have m1: "map snd (map (\<lambda>(m, v). (m, clamp v (- 10) 10)) xs) = map (\<lambda>(m, v). clamp v (- 10) 10) xs"
    for xs :: "(string \<times> real) list" by (induction xs) auto
  have m2: "map fst (map (\<lambda>(m, v). (m, clamp v (- 10) 10)) xs) = map fst xs"
    for xs :: "(string \<times> real) list" by (induction xs) auto
  have c1: "(snd \<circ> (\<lambda>(m, v). (m, clamp v (- 10) 10))) = (\<lambda>(m::string, v). clamp v (- 10) 10)"
    by (auto simp: fun_eq_iff)
  have c2: "(fst \<circ> (\<lambda>(m, v). (m, clamp v (- 10) 10))) = (fst :: string \<times> real \<Rightarrow> string)"
    by (auto simp: fun_eq_iff)
  show ?thesis
    using modules_loop_closed[OF d, of config mr "[]" 0 0]
    by (auto simp: Master_score_symbol_def supplied_scores_def Let_def truediv_def mean_def c1 c2)
qed

lemma two_symbols_return:
  "all_return [MacroScoringComponent (14 / 100), SectorScoringComponent (14 / 100)] example_two_symbols"
  by (simp add: all_return_def example_two_symbols_def example_universe_def example_symbol_def
      MacroScoringComponent_def SectorScoringComponent_def Macro_compute_raw_score_def
      Sector_compute_raw_score_def Let_def)

lemma two_symbols_contributions:
  "map (\<lambda>(n, st). (n, sum_list (map (\<lambda>c. weighted_contribution c st example_two_symbols)
          [MacroScoringComponent (14 / 100), SectorScoringComponent (14 / 100)])))
      (symbols example_two_symbols)
   = [(''CASH'', 28 / 100), (''AAPL'', 70 / 100)]"
  by (simp add: weighted_contribution_def example_two_symbols_def example_universe_def
      example_symbol_def example_macro_def
      MacroScoringComponent_def SectorScoringComponent_def Macro_compute_raw_score_def
      Sector_compute_raw_score_def Let_def)

lemma supplied_example:
  "supplied_scores DEFAULT_CONFIG
     [(''macro'', [(''final_macro_score'', 4)]), (''news'', [(''final_news_score'', 2)])]
   = [(''macro'', 4), (''news'', 2)]"
  by (simp add: supplied_scores_def supplied_score_def List.map_filter_simps module_order_def
      module_score_keys_def is_module_enabled_def DEFAULT_CONFIG_def)

subsection \<open>Bounds of the raw scores and the inputs that a component reads\<close>

lemma options_overlap:
  "OptionsFlow_score example_interp example_overlap_rulebook (105 / 100) example_options_snapshot
  = Inr \<lparr>of_minor_score = 10, final_options_flow_score = 21 / 2,
     of_matched_states = [''CALL_IMBALANCE_STRONG'', ''CALL_IMBALANCE_MILD''],
     of_state_details = [
       (''CALL_IMBALANCE_STRONG'', \<lparr>sd_condition = ''put_call_ratio < 0.6'', sd_avg_score = 6,
          sd_weighted = 6, sd_base_weight = 1, sd_group = Some ''PUT_CALL_IMBALANCE''\<rparr>),
       (''CALL_IMBALANCE_MILD'', \<lparr>sd_condition = ''put_call_ratio < 0.8'', sd_avg_score = 4,
          sd_weighted = 4, sd_base_weight = 1, sd_group = Some ''PUT_CALL_IMBALANCE''\<rparr>)]\<rparr>"
  by (simp add: options_defs example_overlap_rulebook_def tree_pcr_mild_def)

lemma Macro_raw_bounds:
  "Macro_compute_raw_score st u = Inr (raw, det) \<Longrightarrow> - 10 \<le> raw \<and> raw \<le> 10"
  by (auto simp: Macro_compute_raw_score_def Let_def)

lemma Sector_raw_bounds:
  "Sector_compute_raw_score st u = Inr (raw, det) \<Longrightarrow> - 10 \<le> raw \<and> raw \<le> 10"
  by (auto simp: Sector_compute_raw_score_def Let_def split: option.splits if_splits)

lemma Technical_raw_bounds:
  "Technical_compute_raw_score ip defs st u = Inr (raw, det) \<Longrightarrow> - 10 \<le> raw \<and> raw \<le> 10"
  by (auto simp: Technical_compute_raw_score_def Let_def split: if_splits sum.splits prod.splits)

lemma score_universe_components:
  assumes "score_universe cs u = Inr rs" "r \<in> set rs" "x \<in> set (components r)"
  shows "- 10 \<le> raw_score x \<and> raw_score x \<le> 10 \<and> weighted_score x = raw_score x * weight x"
proof -
  from score_universe_total[OF assms(1)] assms(2) obtain st where
    sc: "score_components cs st u = Inr (components r)" by blast
  from score_components_each[OF sc] assms(3) obtain c where "score_symbol c st u = Inr x"
    by (auto simp: list_all2_conv_all_nth in_set_conv_nth)
  from score_symbol_clamped[OF this] show ?thesis by auto
qed












lemma macro_strong:
  "Macro_compute_raw_score example_symbol (example_universe 100)
   = Inr (10, Numbers [(''spy_daily_regime_score'', 0), (''spy_intraday_regime_score'', 0),
          (''vix_score'', 100), (''fear_greed_score'', 0), (''macro_news_score'', 0),
          (''combined_macro_score'', 10)])"
  by (simp add: Macro_compute_raw_score_def example_universe_def example_macro_def Let_def)

lemma sector_strong:
  "Sector_compute_raw_score example_symbol (example_universe 100)
   = Inr (3, SectorNumbers ''XLK'' [(''daily'', 4), (''intraday'', 2), (''combined_sector_score'', 3)])"
  by (simp add: Sector_compute_raw_score_def example_universe_def example_symbol_def Let_def)

lemma overlap_matched:
  "options_matched example_interp (allowed_names example_options_snapshot)
      (of_minor_states example_overlap_rulebook) = of_minor_states example_overlap_rulebook"
  by (simp add: options_matched_def options_condition_def options_defs example_overlap_rulebook_def
      tree_pcr_mild_def)

lemma overlap_pairs: "options_pair_ranges (of_minor_states example_overlap_rulebook)"
  by (simp add: options_pair_ranges_def options_range_of_def example_overlap_rulebook_def)

section \<open>Claims about the technical component, the blend and the master engines\<close>

text \<open>
  C1, counterexample. In the technical component a non-matching indicator is scored 0
  and its base impact stays in the divisor: with the matching RSI alone the raw score is
  4, with the non-matching MACD beside it the raw score is 24/13.
\<close>

theorem non_matching_indicator_counts_as_zero:
  "score_indicator_timeframe example_interp ''MACD'' (snd macd_indicator) example_symbol
     (Some (example_indicators ''MINOR'')) ''MINOR'' = Inr (Some 0, Reason ''no_state_matched'')
   \<and> fst (projr (Technical_compute_raw_score example_interp [rsi_indicator, macd_indicator]
         example_symbol (example_universe 0))) = 24 / 13
   \<and> fst (projr (Technical_compute_raw_score example_interp [rsi_indicator]
         example_symbol (example_universe 0))) = 4
   \<and> isl (Technical_compute_raw_score example_interp [rsi_indicator, macd_indicator]
         example_symbol (example_universe 0)) = False
   \<and> isl (Technical_compute_raw_score example_interp [rsi_indicator]
         example_symbol (example_universe 0)) = False"
  using example_macd_timeframe[of "''MINOR''"]
    technical_rsi_macd[of "example_universe 0"] technical_rsi[of "example_universe 0"]
  by simp

text \<open>
  C8, counterexample. The technical component divides by the base impacts of all
  indicators of the rule table: VWAP, which has no configuration for either timeframe and
  produces no score, lowers the raw score from 4 to 8/5. In the fundamentals engine a
  timeframe without a contributing metric returns the triple of 0, an empty dictionary
  and an empty list, which holds no reason.
\<close>

theorem timeframe_score_counterexample:
  "Technical_compute_raw_score example_interp [rsi_indicator, vwap_indicator] example_symbol
       (example_universe 0)
     = Inr (8 / 5, IndicatorsBreakdown
        [\<lparr>ib_indicator = ''RSI'', ib_group = ''MOMENTUM'', ib_minor_score = Some 4,
          ib_major_score = Some 4, ib_combined = 4\<rparr>,
         \<lparr>ib_indicator = ''VWAP'', ib_group = ''PRICE'', ib_minor_score = None,
          ib_major_score = None, ib_combined = 0\<rparr>] (8 / 5))
   \<and> score_timeframe example_interp example_rulebook ''MINOR'' example_snapshot = Inr (0, [], [])"
  using technical_rsi_vwap[of "example_universe 0"] example_minor_score by simp

text \<open>
  C6, counterexample. In the technical component an indicator with a MINOR score of 4 and
  no MAJOR score is combined to 4 times 0.6: the raw score of the department is 12/5,
  not 4.
\<close>

theorem single_timeframe_is_scaled:
  "Technical_compute_raw_score example_interp [rsi_minor_only] example_symbol (example_universe 0)
     = Inr (12 / 5, IndicatorsBreakdown
        [\<lparr>ib_indicator = ''RSI'', ib_group = ''MOMENTUM'', ib_minor_score = Some 4,
          ib_major_score = None, ib_combined = 12 / 5\<rparr>] (12 / 5))"
  using technical_rsi_minor_only[of "example_universe 0"] by simp

text \<open>
  C6, as amended. In the fundamentals and sentiment engines, when both timeframe scores
  exceed one millionth in absolute value the combined score is the fixed convex blend
  (0.7 MAJOR + 0.3 MINOR for fundamentals, 0.6 MINOR + 0.4 MAJOR for sentiment), which
  lies between the two scores; when only one of them exceeds one millionth in absolute
  value, that score is the result, unscaled; when neither does, the result is 0.
\<close>

theorem blend_of_timeframes:
  "(1 / 1000000 < \<bar>minor\<bar> \<and> 1 / 1000000 < \<bar>major\<bar> \<longrightarrow>
      combine_minor_major minor major = major * (7 / 10) + minor * (3 / 10)
      \<and> Sentiment_combine_minor_major minor major = (6 / 10) * minor + (4 / 10) * major
      \<and> min minor major \<le> combine_minor_major minor major
      \<and> combine_minor_major minor major \<le> max minor major
      \<and> min minor major \<le> Sentiment_combine_minor_major minor major
      \<and> Sentiment_combine_minor_major minor major \<le> max minor major)
   \<and> (1 / 1000000 < \<bar>major\<bar> \<and> \<not> 1 / 1000000 < \<bar>minor\<bar> \<longrightarrow>
      combine_minor_major minor major = major \<and> Sentiment_combine_minor_major minor major = major)
   \<and> (1 / 1000000 < \<bar>minor\<bar> \<and> \<not> 1 / 1000000 < \<bar>major\<bar> \<longrightarrow>
      combine_minor_major minor major = minor \<and> Sentiment_combine_minor_major minor major = minor)
   \<and> (\<not> 1 / 1000000 < \<bar>minor\<bar> \<and> \<not> 1 / 1000000 < \<bar>major\<bar> \<longrightarrow>
      combine_minor_major minor major = 0 \<and> Sentiment_combine_minor_major minor major = 0)"
proof (cases "1 / 1000000 < \<bar>minor\<bar>"; cases "1 / 1000000 < \<bar>major\<bar>")
  assume both: "1 / 1000000 < \<bar>minor\<bar>" "1 / 1000000 < \<bar>major\<bar>"
  have f: "combine_minor_major minor major = major * (7 / 10) + minor * (3 / 10)"
    using both by (simp add: combine_minor_major_def)
  have g: "Sentiment_combine_minor_major minor major = (6 / 10) * minor + (4 / 10) * major"
    using both by (simp add: Sentiment_combine_minor_major_def)
  have between: "min minor major \<le> major * (7 / 10) + minor * (3 / 10)"
    "major * (7 / 10) + minor * (3 / 10) \<le> max minor major"
    "min minor major \<le> (6 / 10) * minor + (4 / 10) * major"
    "(6 / 10) * minor + (4 / 10) * major \<le> max minor major"
    by (simp_all add: min_def max_def)
  from both f g between show ?thesis by simp
next
  assume "1 / 1000000 < \<bar>minor\<bar>" "\<not> 1 / 1000000 < \<bar>major\<bar>"
  then show ?thesis
    by (simp add: combine_minor_major_def Sentiment_combine_minor_major_def)
next
  assume "\<not> 1 / 1000000 < \<bar>minor\<bar>" "1 / 1000000 < \<bar>major\<bar>"
  then show ?thesis
    by (simp add: combine_minor_major_def Sentiment_combine_minor_major_def)
next
  assume "\<not> 1 / 1000000 < \<bar>minor\<bar>" "\<not> 1 / 1000000 < \<bar>major\<bar>"
  then show ?thesis
    by (simp add: combine_minor_major_def Sentiment_combine_minor_major_def)
qed

theorem blend_of_timeframes_witness:
  "combine_minor_major 2 4 = 34 / 10 \<and> Sentiment_combine_minor_major 2 4 = 28 / 10
   \<and> combine_minor_major 0 4 = 4 \<and> Sentiment_combine_minor_major 0 4 = 4
   \<and> combine_minor_major 2 0 = 2 \<and> Sentiment_combine_minor_major 2 0 = 2
   \<and> combine_minor_major 0 0 = 0 \<and> Sentiment_combine_minor_major 0 0 = 0"
  using blend_of_timeframes[of 2 4] blend_of_timeframes[of 0 4] blend_of_timeframes[of 2 0]
    blend_of_timeframes[of 0 0]
  by simp

text \<open>
  C3, counterexample. \<open>score_universe\<close> compares strictly against the constant 0.5: a
  total of exactly 0.5 is labelled NEUTRAL, not LONG.
\<close>

theorem universe_boundary_is_neutral:
  "universe_direction (1 / 2) = ''NEUTRAL''
   \<and> universe_direction (- (1 / 2)) = ''NEUTRAL''
   \<and> score_universe [MacroScoringComponent (1 / 4)] (example_universe 10)
     = Inr [\<lparr>result_symbol = ''AAPL'', total_score = 1 / 2, direction = ''NEUTRAL'',
        components = [
          \<lparr>component_name = ''MACRO'', raw_score = 2, weight = 1 / 4, weighted_score = 1 / 2,
           cs_details = Numbers [(''spy_daily_regime_score'', 0), (''spy_intraday_regime_score'', 0),
             (''vix_score'', 10), (''fear_greed_score'', 0), (''macro_news_score'', 0),
             (''combined_macro_score'', 2)]\<rparr>]\<rparr>]"
  using universe_boundary by (simp add: universe_direction_def)

text \<open>
  C3, as amended. For a configured threshold t above 0, \<open>_direction_from_score\<close> of
  master\_scoring.py labels a score LONG exactly when it is at least t, SHORT exactly when
  it is at most -t, and NEUTRAL exactly when it lies strictly between; so t itself is
  LONG and -t is SHORT. \<open>score_universe\<close> of scoring\_system.py uses the fixed bound 0.5
  with strict comparisons: LONG exactly above 0.5, SHORT exactly below -0.5, NEUTRAL from
  -0.5 to 0.5 inclusive.
\<close>

theorem direction_labels:
  assumes "0 < direction_threshold config"
  shows "(direction_from_score config s = ''LONG'' \<longleftrightarrow> direction_threshold config \<le> s)
       \<and> (direction_from_score config s = ''SHORT'' \<longleftrightarrow> s \<le> - direction_threshold config)
       \<and> (direction_from_score config s = ''NEUTRAL'' \<longleftrightarrow>
            - direction_threshold config < s \<and> s < direction_threshold config)
       \<and> direction_from_score config (direction_threshold config) = ''LONG''
       \<and> direction_from_score config (- direction_threshold config) = ''SHORT''
       \<and> (universe_direction s = ''LONG'' \<longleftrightarrow> 1 / 2 < s)
       \<and> (universe_direction s = ''SHORT'' \<longleftrightarrow> s < - (1 / 2))
       \<and> (universe_direction s = ''NEUTRAL'' \<longleftrightarrow> - (1 / 2) \<le> s \<and> s \<le> 1 / 2)"
  using assms by (auto simp: direction_from_score_def universe_direction_def Let_def)

theorem direction_labels_witness:
  "0 < direction_threshold DEFAULT_CONFIG
   \<and> direction_from_score DEFAULT_CONFIG 2 = ''LONG''
   \<and> direction_from_score DEFAULT_CONFIG (- 2) = ''SHORT''
   \<and> direction_from_score DEFAULT_CONFIG (19 / 10) = ''NEUTRAL''
   \<and> universe_direction (6 / 10) = ''LONG''"
proof -
  have h: "0 < direction_threshold DEFAULT_CONFIG" by (simp add: DEFAULT_CONFIG_def)
  have t: "direction_threshold DEFAULT_CONFIG = 2" by (simp add: DEFAULT_CONFIG_def)
  from direction_labels[OF h, of 2] direction_labels[OF h, of "- 2"]
    direction_labels[OF h, of "19 / 10"] direction_labels[OF h, of "6 / 10"] h t
  show ?thesis by simp
qed

text \<open>
  C2, counterexample. \<open>MasterScoringEngine.score_symbol\<close> of master\_scoring.py, given
  the module scores 4 and 2, returns their mean 3, not their sum 6; given the single
  module score 25 it returns 10.
\<close>

theorem master_score_symbol_is_clamped_mean:
  "Master_score_symbol DEFAULT_CONFIG ''AAPL''
     [(''macro'', [(''final_macro_score'', 4)]), (''news'', [(''final_news_score'', 2)])]
   = Inr \<lparr>master_symbol = ''AAPL'', module_scores = [(''macro'', 4), (''news'', 2)],
          final_master_score = 3, master_direction = ''LONG'', abs_strength = 3,
          used_modules = [''macro'', ''news'']\<rparr>
   \<and> Master_score_symbol DEFAULT_CONFIG ''AAPL'' [(''macro'', [(''final_macro_score'', 25)])]
   = Inr \<lparr>master_symbol = ''AAPL'', module_scores = [(''macro'', 10)],
          final_master_score = 10, master_direction = ''LONG'', abs_strength = 10,
          used_modules = [''macro'']\<rparr>"
  using master_two_modules master_one_module by simp

text \<open>
  C2, as amended. \<open>score_universe\<close> of scoring\_system.py returns a result whenever every
  component returns a raw score. Its results are, for every symbol of the universe and in
  the order of decreasing absolute total, the symbol with the plain sum over all
  components of the raw score clamped to [-10, 10] times the component weight; the sum is
  not clamped, and every result lists one score per component. \<open>score_symbol\<close> of
  master\_scoring.py takes, in the order of the modules, the score that each enabled
  module supplies under its score key, clamps each to [-10, 10], and returns their
  arithmetic mean clamped to [-10, 10] (0 when no module supplies a score), with the
  direction of that mean.
\<close>

theorem master_score_is_sum:
  "(all_return cs u \<longrightarrow> (\<exists>rs. score_universe cs u = Inr rs))
   \<and> (score_universe cs u = Inr rs \<longrightarrow>
        map (\<lambda>r. (result_symbol r, total_score r)) rs
          = sort_key (\<lambda>p. - \<bar>snd p\<bar>)
              (map (\<lambda>(n, st). (n, sum_list (map (\<lambda>c. weighted_contribution c st u) cs))) (symbols u))
        \<and> (\<forall>r \<in> set rs. total_score r = sum_list (map weighted_score (components r))
                \<and> map component_name (components r) = map comp_name cs))
   \<and> Master_score_symbol config s mr =
       (let clamped = map (\<lambda>(m, v). (m, clamp v (- 10) 10)) (supplied_scores config mr);
            final = clamp (if clamped = [] then 0 else mean (map snd clamped)) (- 10) 10
        in Inr \<lparr>master_symbol = s, module_scores = clamped, final_master_score = final,
                master_direction = direction_from_score config final,
                abs_strength = \<bar>final\<bar>, used_modules = map fst clamped\<rparr>)"
proof -
  have a: "all_return cs u \<longrightarrow> (\<exists>rs. score_universe cs u = Inr rs)"
    using score_universe_returns by blast
  have b: "score_universe cs u = Inr rs \<longrightarrow>
        map (\<lambda>r. (result_symbol r, total_score r)) rs
          = sort_key (\<lambda>p. - \<bar>snd p\<bar>)
              (map (\<lambda>(n, st). (n, sum_list (map (\<lambda>c. weighted_contribution c st u) cs))) (symbols u))
        \<and> (\<forall>r \<in> set rs. total_score r = sum_list (map weighted_score (components r))
                \<and> map component_name (components r) = map comp_name cs)"
  proof
    assume run: "score_universe cs u = Inr rs"
    have 1: "map (\<lambda>r. (result_symbol r, total_score r)) rs
          = sort_key (\<lambda>p. - \<bar>snd p\<bar>)
              (map (\<lambda>(n, st). (n, sum_list (map (\<lambda>c. weighted_contribution c st u) cs))) (symbols u))"
      by (rule score_universe_closed[OF run])
    have 2: "\<forall>r \<in> set rs. total_score r = sum_list (map weighted_score (components r))
                \<and> map component_name (components r) = map comp_name cs"
    proof
      fix r assume "r \<in> set rs"
      with score_universe_total[OF run] obtain st where
        t: "total_score r = sum_list (map weighted_score (components r))"
        and sc: "score_components cs st u = Inr (components r)" by blast
      from score_components_weighted[OF sc] t
      show "total_score r = sum_list (map weighted_score (components r))
                \<and> map component_name (components r) = map comp_name cs" by simp
    qed
    from 1 2 show "map (\<lambda>r. (result_symbol r, total_score r)) rs
          = sort_key (\<lambda>p. - \<bar>snd p\<bar>)
              (map (\<lambda>(n, st). (n, sum_list (map (\<lambda>c. weighted_contribution c st u) cs))) (symbols u))
        \<and> (\<forall>r \<in> set rs. total_score r = sum_list (map weighted_score (components r))
                \<and> map component_name (components r) = map comp_name cs)" by (rule conjI)
  qed
  from a b Master_score_symbol_closed[of config s mr] show ?thesis by (intro conjI)
qed

theorem master_score_is_sum_witness:
  "all_return [MacroScoringComponent (14 / 100), SectorScoringComponent (14 / 100)] example_two_symbols
   \<and> (\<exists>rs. score_universe [MacroScoringComponent (14 / 100), SectorScoringComponent (14 / 100)]
              example_two_symbols = Inr rs
         \<and> map result_symbol rs = [''AAPL'', ''CASH'']
         \<and> map total_score rs = [70 / 100, 28 / 100])
   \<and> Master_score_symbol DEFAULT_CONFIG ''AAPL''
        [(''macro'', [(''final_macro_score'', 4)]), (''news'', [(''final_news_score'', 2)])]
      = Inr \<lparr>master_symbol = ''AAPL'', module_scores = [(''macro'', 4), (''news'', 2)],
             final_master_score = 3, master_direction = ''LONG'', abs_strength = 3,
             used_modules = [''macro'', ''news'']\<rparr>"
proof -
  let ?cs = "[MacroScoringComponent (14 / 100), SectorScoringComponent (14 / 100)]"
  let ?mr = "[(''macro'', [(''final_macro_score'', 4)]), (''news'', [(''final_news_score'', 2)])]"
  from master_score_is_sum[of ?cs example_two_symbols] two_symbols_return obtain rs where
    run: "score_universe ?cs example_two_symbols = Inr rs" by blast
  from master_score_is_sum[of ?cs example_two_symbols rs] run
  have "map (\<lambda>r. (result_symbol r, total_score r)) rs
          = sort_key (\<lambda>p. - \<bar>snd p\<bar>)
              (map (\<lambda>(n, st). (n, sum_list (map (\<lambda>c. weighted_contribution c st example_two_symbols) ?cs)))
                 (symbols example_two_symbols))" by blast
  then have pairs: "map (\<lambda>r. (result_symbol r, total_score r)) rs = [(''AAPL'', 70 / 100), (''CASH'', 28 / 100)]"
    unfolding two_symbols_contributions by simp
  have "map result_symbol rs = map fst (map (\<lambda>r. (result_symbol r, total_score r)) rs)"
    "map total_score rs = map snd (map (\<lambda>r. (result_symbol r, total_score r)) rs)"
    by simp_all
  with pairs have names: "map result_symbol rs = [''AAPL'', ''CASH'']"
    and totals: "map total_score rs = [70 / 100, 28 / 100]" by simp_all
  from run names totals have u: "\<exists>rs. score_universe ?cs example_two_symbols = Inr rs
         \<and> map result_symbol rs = [''AAPL'', ''CASH'']
         \<and> map total_score rs = [70 / 100, 28 / 100]" by (intro exI[of _ rs] conjI)
  note closed = master_score_is_sum[of ?cs example_two_symbols rs DEFAULT_CONFIG "''AAPL''" ?mr,
      THEN conjunct2, THEN conjunct2]
  have m: "Master_score_symbol DEFAULT_CONFIG ''AAPL'' ?mr
      = Inr \<lparr>master_symbol = ''AAPL'', module_scores = [(''macro'', 4), (''news'', 2)],
             final_master_score = 3, master_direction = ''LONG'', abs_strength = 3,
             used_modules = [''macro'', ''news'']\<rparr>"
    unfolding closed supplied_example
    by (simp add: clamp_def mean_def direction_from_score_def DEFAULT_CONFIG_def)
  from two_symbols_return u m show ?thesis by (intro conjI)
qed

section \<open>Department bounds and the rejected call\<close>

text \<open>
  C7, counterexample. The options-flow engine adds the weighted midpoints of all matched
  states and does not clamp: on a rule table whose ranges all lie inside its scale of
  [-10, 10], two matching states give a raw score of 17.1 and a weighted score of 17.955.
\<close>

theorem options_raw_score_leaves_scale:
  "of_score_scale example_options_rulebook = (- 10, 10)
   \<and> states_inside (- 10) 10 (of_minor_states example_options_rulebook)
   \<and> OptionsFlow_score example_interp example_options_rulebook (105 / 100) example_options_snapshot
     = Inr \<lparr>of_minor_score = 171 / 10, final_options_flow_score = 3591 / 200,
        of_matched_states = [''CALL_IMBALANCE_EXTREME_BULL'', ''UOA_MASSIVE_CALL_SWEEPS''],
        of_state_details = [
          (''CALL_IMBALANCE_EXTREME_BULL'', \<lparr>sd_condition = ''put_call_ratio < 0.6'', sd_avg_score = 15 / 2,
             sd_weighted = 15 / 2, sd_base_weight = 1, sd_group = Some ''PUT_CALL_IMBALANCE''\<rparr>),
          (''UOA_MASSIVE_CALL_SWEEPS'', \<lparr>sd_condition = ''uoa_call_notional_mult >= 5.0'', sd_avg_score = 8,
             sd_weighted = 48 / 5, sd_base_weight = 12 / 10, sd_group = Some ''UOA''\<rparr>)]\<rparr>"
proof -
  have 1: "of_score_scale example_options_rulebook = (- 10, 10)"
    by (simp add: example_options_rulebook_def)
  have 2: "states_inside (- 10) 10 (of_minor_states example_options_rulebook)"
    by (simp add: example_options_rulebook_def states_inside_def range_of_def)
  from 1 2 options_two_states show ?thesis by simp
qed

text \<open>
  C4, on the failing input. The condition
  \<open>abs(gamma_exposure) >= gamma_critical_threshold\<close> of the options-flow rulebook, with
  \<open>abs\<close> bound among the allowed names, a gamma exposure of -5 and a threshold of 3:
  \<open>safe_eval\<close> rejects the call node with a \<open>ValueError\<close>, the engine's wrapper reports
  no match, and the state contributes nothing to the score.
\<close>

theorem abs_call_is_rejected:
  "map_of (allowed_names example_gamma_snapshot) ''abs'' = Some (PBuiltin ''abs'')
   \<and> parse example_interp ''abs(gamma_exposure) >= gamma_critical_threshold'' = Inr tree_abs_gamma
   \<and> eval_node example_interp (allowed_names example_gamma_snapshot) tree_abs_gamma = Inl ValueError
   \<and> safe_eval example_interp ''abs(gamma_exposure) >= gamma_critical_threshold''
        (allowed_names example_gamma_snapshot) = Inl ValueError
   \<and> OptionsFlow_safe_eval example_interp ''abs(gamma_exposure) >= gamma_critical_threshold''
        (allowed_names example_gamma_snapshot) = False
   \<and> OptionsFlow_score example_interp example_gamma_rulebook (105 / 100) example_gamma_snapshot
        = Inr \<lparr>of_minor_score = 0, final_options_flow_score = 0, of_matched_states = [],
               of_state_details = []\<rparr>"
proof -
  have 1: "map_of (allowed_names example_gamma_snapshot) ''abs'' = Some (PBuiltin ''abs'')"
    by (simp add: allowed_names_def)
  have 2: "parse example_interp ''abs(gamma_exposure) >= gamma_critical_threshold'' = Inr tree_abs_gamma"
    by (simp add: example_interp_def example_parse_def)
  have 3: "eval_node example_interp (allowed_names example_gamma_snapshot) tree_abs_gamma = Inl ValueError"
    by (simp add: tree_abs_gamma_def)
  have 5: "OptionsFlow_safe_eval example_interp ''abs(gamma_exposure) >= gamma_critical_threshold''
        (allowed_names example_gamma_snapshot) = False"
    using options_abs_call by (simp add: OptionsFlow_safe_eval_def)
  from 1 2 3 options_abs_call 5 options_gamma show ?thesis by (intro conjI)
qed

text \<open>
  C7, as amended. A component of scoring\_system.py clamps the raw score that its
  \<open>_compute_raw_score\<close> returns to the fixed interval [-10, 10] and multiplies the clamped
  score by its weight: every component score in a result of \<open>score_universe\<close> has a raw
  score in [-10, 10] and a weighted score equal to the raw score times the weight. The
  technical, macro and sector components return raw scores that are in [-10, 10] already.
  The fundamentals engine does not clamp: its final score is the combination of the MINOR
  and the MAJOR score times the module weight 0.75.
\<close>

theorem department_raw_score_bounds:
  "(compute_raw_score c st u = Inr (raw, det) \<longrightarrow>
      score_symbol c st u =
        Inr \<lparr>component_name = comp_name c, raw_score = max (- 10) (min 10 raw),
             weight = comp_weight c,
             weighted_score = max (- 10) (min 10 raw) * comp_weight c, cs_details = det\<rparr>
      \<and> - 10 \<le> max (- 10) (min 10 raw) \<and> max (- 10) (min 10 raw) \<le> 10)
   \<and> (score_universe cs u = Inr rs \<longrightarrow>
        (\<forall>r \<in> set rs. \<forall>x \<in> set (components r).
            - 10 \<le> raw_score x \<and> raw_score x \<le> 10 \<and> weighted_score x = raw_score x * weight x))
   \<and> (Technical_compute_raw_score ip defs st u = Inr (raw_t, det_t) \<longrightarrow> - 10 \<le> raw_t \<and> raw_t \<le> 10)
   \<and> (Macro_compute_raw_score st u = Inr (raw_m, det_m) \<longrightarrow> - 10 \<le> raw_m \<and> raw_m \<le> 10)
   \<and> (Sector_compute_raw_score st u = Inr (raw_s, det_s) \<longrightarrow> - 10 \<le> raw_s \<and> raw_s \<le> 10)
   \<and> (score_timeframe ip rb ''MINOR'' snap = Inr (t1, d1, s1)
        \<and> score_timeframe ip rb ''MAJOR'' snap = Inr (t2, d2, s2) \<longrightarrow>
        Fundamentals_score ip rb snap =
          Inr \<lparr>minor_score = t1, major_score = t2,
               final_fundamentals_score = combine_minor_major t1 t2 * (75 / 100),
               metric_scores_of = foldl (\<lambda>d (k, v). dict_set d k v) d1 d2,
               matched_states_of = s1 @ s2\<rparr>)"
proof (intro conjI impI)
  assume "compute_raw_score c st u = Inr (raw, det)"
  then show "score_symbol c st u =
        Inr \<lparr>component_name = comp_name c, raw_score = max (- 10) (min 10 raw),
             weight = comp_weight c,
             weighted_score = max (- 10) (min 10 raw) * comp_weight c, cs_details = det\<rparr>"
    by (simp add: score_symbol_def Let_def)
next
  show "- 10 \<le> max (- 10) (min 10 raw)" by simp
next
  show "max (- 10) (min 10 raw) \<le> 10" by simp
next
  assume run: "score_universe cs u = Inr rs"
  show "\<forall>r \<in> set rs. \<forall>x \<in> set (components r).
            - 10 \<le> raw_score x \<and> raw_score x \<le> 10 \<and> weighted_score x = raw_score x * weight x"
    using score_universe_components[OF run] by blast
next
  assume "Technical_compute_raw_score ip defs st u = Inr (raw_t, det_t)"
  from Technical_raw_bounds[OF this] show "- 10 \<le> raw_t" "raw_t \<le> 10" by simp_all
next
  assume "Macro_compute_raw_score st u = Inr (raw_m, det_m)"
  from Macro_raw_bounds[OF this] show "- 10 \<le> raw_m" "raw_m \<le> 10" by simp_all
next
  assume "Sector_compute_raw_score st u = Inr (raw_s, det_s)"
  from Sector_raw_bounds[OF this] show "- 10 \<le> raw_s" "raw_s \<le> 10" by simp_all
next
  assume "score_timeframe ip rb ''MINOR'' snap = Inr (t1, d1, s1)
        \<and> score_timeframe ip rb ''MAJOR'' snap = Inr (t2, d2, s2)"
  then show "Fundamentals_score ip rb snap =
          Inr \<lparr>minor_score = t1, major_score = t2,
               final_fundamentals_score = combine_minor_major t1 t2 * (75 / 100),
               metric_scores_of = foldl (\<lambda>d (k, v). dict_set d k v) d1 d2,
               matched_states_of = s1 @ s2\<rparr>"
    by (simp add: Fundamentals_score_def Fundamentals_weight_def Let_def)
qed

theorem department_raw_score_bounds_witness:
  "score_symbol example_component example_symbol (example_universe 100)
     = Inr \<lparr>component_name = ''REGIME'', raw_score = 10, weight = 1 / 2, weighted_score = 5,
            cs_details = Reason ''fixed''\<rparr>
   \<and> (\<exists>rs. score_universe [MacroScoringComponent 1, SectorScoringComponent 1] (example_universe 100) = Inr rs
         \<and> map (\<lambda>r. map raw_score (components r)) rs = [[10, 3]]
         \<and> list_all (\<lambda>r. list_all (\<lambda>x. - 10 \<le> raw_score x \<and> raw_score x \<le> 10
                \<and> weighted_score x = raw_score x * weight x) (components r)) rs)
   \<and> (\<exists>d. Technical_compute_raw_score example_interp [rsi_indicator] example_symbol (example_universe 100)
          = Inr (4, d))
   \<and> (\<exists>d. Macro_compute_raw_score example_symbol (example_universe 100) = Inr (10, d))
   \<and> (\<exists>d. Sector_compute_raw_score example_symbol (example_universe 100) = Inr (3, d))
   \<and> Fundamentals_score example_interp example_rulebook example_snapshot
     = Inr \<lparr>minor_score = 0, major_score = 5, final_fundamentals_score = 375 / 100,
            metric_scores_of = [(''PE_PB_VALUATION'', 5)],
            matched_states_of = [''PE_PB_VALUATION.CHEAP'', ''PE_PB_VALUATION.FAIR'']\<rparr>"
proof -
  let ?u = "example_universe 100"
  let ?cs = "[MacroScoringComponent 1, SectorScoringComponent 1]"
  let ?rs = "[\<lparr>result_symbol = ''AAPL'', total_score = 13, direction = ''LONG'',
     components = [
       \<lparr>component_name = ''MACRO'', raw_score = 10, weight = 1, weighted_score = 10,
        cs_details = Numbers [(''spy_daily_regime_score'', 0), (''spy_intraday_regime_score'', 0),
          (''vix_score'', 100), (''fear_greed_score'', 0), (''macro_news_score'', 0),
          (''combined_macro_score'', 10)]\<rparr>,
       \<lparr>component_name = ''SECTOR'', raw_score = 3, weight = 1, weighted_score = 3,
        cs_details = SectorNumbers ''XLK'' [(''daily'', 4), (''intraday'', 2), (''combined_sector_score'', 3)]\<rparr>]\<rparr>]"
  let ?dt = "IndicatorsBreakdown
        [\<lparr>ib_indicator = ''RSI'', ib_group = ''MOMENTUM'', ib_minor_score = Some 4,
          ib_major_score = Some 4, ib_combined = 4\<rparr>] 4"
  let ?dm = "Numbers [(''spy_daily_regime_score'', 0), (''spy_intraday_regime_score'', 0),
          (''vix_score'', 100), (''fear_greed_score'', 0), (''macro_news_score'', 0),
          (''combined_macro_score'', 10)]"
  let ?ds = "SectorNumbers ''XLK'' [(''daily'', 4), (''intraday'', 2), (''combined_sector_score'', 3)]"
  note inst = department_raw_score_bounds[where c = example_component and st = example_symbol
      and u = ?u and raw = 25 and det = "Reason ''fixed''" and cs = ?cs and rs = ?rs
      and ip = example_interp and defs = "[rsi_indicator]" and raw_t = 4 and det_t = ?dt
      and raw_m = 10 and det_m = ?dm and raw_s = 3 and det_s = ?ds
      and rb = example_rulebook and snap = example_snapshot
      and ?t1.0 = 0 and ?d1.0 = "[]" and ?s1.0 = "[]" and ?t2.0 = 5
      and ?d2.0 = "[(''PE_PB_VALUATION'', 5)]"
      and ?s2.0 = "[''PE_PB_VALUATION.CHEAP'', ''PE_PB_VALUATION.FAIR'']"]
  have raw: "compute_raw_score example_component example_symbol ?u = Inr (25, Reason ''fixed'')"
    by (simp add: example_component_def)
  from inst[THEN conjunct1] raw
  have a: "score_symbol example_component example_symbol ?u
     = Inr \<lparr>component_name = ''REGIME'', raw_score = 10, weight = 1 / 2, weighted_score = 5,
            cs_details = Reason ''fixed''\<rparr>"
    by (simp add: example_component_def)
  from inst[THEN conjunct2, THEN conjunct1] universe_strong
  have "\<forall>r \<in> set ?rs. \<forall>x \<in> set (components r).
            - 10 \<le> raw_score x \<and> raw_score x \<le> 10 \<and> weighted_score x = raw_score x * weight x"
    by blast
  then have "list_all (\<lambda>r. list_all (\<lambda>x. - 10 \<le> raw_score x \<and> raw_score x \<le> 10
                \<and> weighted_score x = raw_score x * weight x) (components r)) ?rs"
    unfolding list_all_iff .
  with universe_strong
  have b: "\<exists>rs. score_universe ?cs ?u = Inr rs
         \<and> map (\<lambda>r. map raw_score (components r)) rs = [[10, 3]]
         \<and> list_all (\<lambda>r. list_all (\<lambda>x. - 10 \<le> raw_score x \<and> raw_score x \<le> 10
                \<and> weighted_score x = raw_score x * weight x) (components r)) rs"
    by (intro exI[of _ ?rs] conjI) simp_all
  have c: "\<exists>d. Technical_compute_raw_score example_interp [rsi_indicator] example_symbol ?u = Inr (4, d)"
    using technical_rsi by blast
  have d: "\<exists>d. Macro_compute_raw_score example_symbol ?u = Inr (10, d)"
    using macro_strong by blast
  have e: "\<exists>d. Sector_compute_raw_score example_symbol ?u = Inr (3, d)"
    using sector_strong by blast
  from inst[THEN conjunct2, THEN conjunct2, THEN conjunct2, THEN conjunct2, THEN conjunct2]
    example_minor_score example_major_score
  have f: "Fundamentals_score example_interp example_rulebook example_snapshot
     = Inr \<lparr>minor_score = 0, major_score = 5, final_fundamentals_score = 375 / 100,
            metric_scores_of = [(''PE_PB_VALUATION'', 5)],
            matched_states_of = [''PE_PB_VALUATION.CHEAP'', ''PE_PB_VALUATION.FAIR'']\<rparr>"
    by (simp add: combine_minor_major_def)
  from a b c d e f show ?thesis by (intro conjI)
qed

section \<open>Metric scores, the timeframe formula and the recomputation of every cycle\<close>

text \<open>
  C5, counterexample. The options-flow engine has no metric level and no mean: two
  matching states of one group, with midpoints 6 and 4 and group weight 1, give a score
  of 10, their weighted sum.
\<close>

theorem options_states_are_summed:
  "OptionsFlow_score example_interp example_overlap_rulebook (105 / 100) example_options_snapshot
  = Inr \<lparr>of_minor_score = 10, final_options_flow_score = 21 / 2,
     of_matched_states = [''CALL_IMBALANCE_STRONG'', ''CALL_IMBALANCE_MILD''],
     of_state_details = [
       (''CALL_IMBALANCE_STRONG'', \<lparr>sd_condition = ''put_call_ratio < 0.6'', sd_avg_score = 6,
          sd_weighted = 6, sd_base_weight = 1, sd_group = Some ''PUT_CALL_IMBALANCE''\<rparr>),
       (''CALL_IMBALANCE_MILD'', \<lparr>sd_condition = ''put_call_ratio < 0.8'', sd_avg_score = 4,
          sd_weighted = 4, sd_base_weight = 1, sd_group = Some ''PUT_CALL_IMBALANCE''\<rparr>)]\<rparr>"
  by (rule options_overlap)

text \<open>
  C5, as amended. In the fundamentals engine, for a metric whose score ranges are pairs,
  every state whose condition evaluates true contributes the midpoint (low + high) / 2 of
  its range, and the metric's score is the sum of the matched midpoints divided by their
  number: \<open>None\<close> when no state matches, and 5 when the matched midpoints are 4 and 6.
  The options-flow engine has no metric level: its score is the sum, over all states
  whose condition evaluates true, of the midpoint times the base weight of the state's
  group, and its final score is that sum times the module weight.
\<close>

theorem metric_score_is_mean_of_midpoints:
  "(pair_ranges states \<longrightarrow>
      score_metric_states ip name states snapshot =
           Inr (if matched_midpoints ip snapshot states = [] then None
                else Some (sum_list (matched_midpoints ip snapshot states)
                            / real (length (matched_midpoints ip snapshot states))),
                map (\<lambda>(n, r). name @ ''.'' @ n) (matched_rules ip snapshot states))
      \<and> (matched_midpoints ip snapshot states = [4, 6] \<longrightarrow>
            fst (projr (score_metric_states ip name states snapshot)) = Some 5))
   \<and> matched_midpoints ip snapshot states =
           map (\<lambda>(n, r). midpoint (range_of r))
             (filter (\<lambda>(n, r). state_matches ip snapshot r) states)
   \<and> (\<forall>low high. midpoint (ScorePair low high) = (low + high) / 2)
   \<and> (options_pair_ranges (of_minor_states rb) \<longrightarrow>
        OptionsFlow_score ip rb w options_snapshot =
          Inr \<lparr>of_minor_score =
                  (\<Sum>(n, r)\<leftarrow>options_matched ip (allowed_names options_snapshot) (of_minor_states rb).
                      midpoint (options_range_of r) * group_weight (of_groups rb) (group r)),
               final_options_flow_score =
                  (\<Sum>(n, r)\<leftarrow>options_matched ip (allowed_names options_snapshot) (of_minor_states rb).
                      midpoint (options_range_of r) * group_weight (of_groups rb) (group r)) * w,
               of_matched_states =
                  map fst (options_matched ip (allowed_names options_snapshot) (of_minor_states rb)),
               of_state_details = map (\<lambda>(n, r). (n, options_detail (of_groups rb) r))
                  (options_matched ip (allowed_names options_snapshot) (of_minor_states rb))\<rparr>)"
proof -
  have 1: "score_metric_states ip name states snapshot =
           Inr (if matched_midpoints ip snapshot states = [] then None
                else Some (sum_list (matched_midpoints ip snapshot states)
                            / real (length (matched_midpoints ip snapshot states))),
                map (\<lambda>(n, r). name @ ''.'' @ n) (matched_rules ip snapshot states))"
    if "pair_ranges states"
    using score_metric_states_closed[OF that, of ip name snapshot] by (simp add: mean_def)
  have 2: "matched_midpoints ip snapshot states =
           map (\<lambda>(n, r). midpoint (range_of r))
             (filter (\<lambda>(n, r). state_matches ip snapshot r) states)"
    by (simp add: matched_midpoints_def matched_rules_def)
  have 3: "\<forall>low high. midpoint (ScorePair low high) = (low + high) / 2" by simp
  have 4: "fst (projr (score_metric_states ip name states snapshot)) = Some 5"
    if "pair_ranges states" "matched_midpoints ip snapshot states = [4, 6]"
    using 1[OF that(1)] that(2) by simp
  note 5 = OptionsFlow_score_closed[of rb ip w options_snapshot]
  from 1 2 3 4 5 show ?thesis by blast
qed

theorem metric_score_is_mean_of_midpoints_witness:
  "pair_ranges example_states
   \<and> matched_midpoints example_interp example_snapshot example_states = [4, 6]
   \<and> score_metric_states example_interp ''PE_PB_VALUATION'' example_states example_snapshot
       = Inr (Some 5, [''PE_PB_VALUATION.CHEAP'', ''PE_PB_VALUATION.FAIR''])
   \<and> options_pair_ranges (of_minor_states example_overlap_rulebook)
   \<and> map (\<lambda>(n, r). midpoint (options_range_of r))
        (options_matched example_interp (allowed_names example_options_snapshot)
           (of_minor_states example_overlap_rulebook)) = [6, 4]
   \<and> (\<exists>res. OptionsFlow_score example_interp example_overlap_rulebook (105 / 100) example_options_snapshot
          = Inr res \<and> of_minor_score res = 10 \<and> final_options_flow_score res = 21 / 2
            \<and> of_matched_states res = [''CALL_IMBALANCE_STRONG'', ''CALL_IMBALANCE_MILD''])"
proof -
  note inst = metric_score_is_mean_of_midpoints[of example_states example_interp "''PE_PB_VALUATION''" example_snapshot
      example_overlap_rulebook "105 / 100" example_options_snapshot]
  have p: "pair_ranges example_states"
    by (simp add: pair_ranges_def range_of_def example_states_def)
  have mr: "map (\<lambda>(n, r). ''PE_PB_VALUATION'' @ ''.'' @ n) (matched_rules example_interp example_snapshot example_states)
     = [''PE_PB_VALUATION.CHEAP'', ''PE_PB_VALUATION.FAIR'']"
    using example_match_cheap example_match_fair by (simp add: matched_rules_def state_matches_def example_states_def)
  from inst[THEN conjunct1] p
  have "score_metric_states example_interp ''PE_PB_VALUATION'' example_states example_snapshot =
           Inr (if matched_midpoints example_interp example_snapshot example_states = [] then None
                else Some (sum_list (matched_midpoints example_interp example_snapshot example_states)
                            / real (length (matched_midpoints example_interp example_snapshot example_states))),
                map (\<lambda>(n, r). ''PE_PB_VALUATION'' @ ''.'' @ n)
                  (matched_rules example_interp example_snapshot example_states))"
    by blast
  then have a: "score_metric_states example_interp ''PE_PB_VALUATION'' example_states example_snapshot
       = Inr (Some 5, [''PE_PB_VALUATION.CHEAP'', ''PE_PB_VALUATION.FAIR''])"
    unfolding mr example_midpoints by simp
  have mids: "map (\<lambda>(n, r). midpoint (options_range_of r))
        (options_matched example_interp (allowed_names example_options_snapshot)
           (of_minor_states example_overlap_rulebook)) = [6, 4]"
    unfolding overlap_matched
    by (simp add: example_overlap_rulebook_def options_range_of_def)
  from inst[THEN conjunct2, THEN conjunct2, THEN conjunct2] overlap_pairs
  have "OptionsFlow_score example_interp example_overlap_rulebook (105 / 100) example_options_snapshot =
          Inr \<lparr>of_minor_score =
                  (\<Sum>(n, r)\<leftarrow>options_matched example_interp (allowed_names example_options_snapshot)
                        (of_minor_states example_overlap_rulebook).
                      midpoint (options_range_of r) * group_weight (of_groups example_overlap_rulebook) (group r)),
               final_options_flow_score =
                  (\<Sum>(n, r)\<leftarrow>options_matched example_interp (allowed_names example_options_snapshot)
                        (of_minor_states example_overlap_rulebook).
                      midpoint (options_range_of r) * group_weight (of_groups example_overlap_rulebook) (group r))
                    * (105 / 100),
               of_matched_states =
                  map fst (options_matched example_interp (allowed_names example_options_snapshot)
                     (of_minor_states example_overlap_rulebook)),
               of_state_details = map (\<lambda>(n, r). (n, options_detail (of_groups example_overlap_rulebook) r))
                  (options_matched example_interp (allowed_names example_options_snapshot)
                     (of_minor_states example_overlap_rulebook))\<rparr>"
    by blast
  then have b: "\<exists>res. OptionsFlow_score example_interp example_overlap_rulebook (105 / 100) example_options_snapshot
          = Inr res \<and> of_minor_score res = 10 \<and> final_options_flow_score res = 21 / 2
            \<and> of_matched_states res = [''CALL_IMBALANCE_STRONG'', ''CALL_IMBALANCE_MILD'']"
    unfolding overlap_matched
    by (simp add: example_overlap_rulebook_def options_range_of_def group_weight_def)
  from p example_midpoints a overlap_pairs mids b show ?thesis by (intro conjI)
qed

text \<open>
  C8, as amended. In the fundamentals engine the score of a timeframe never fails with a
  division by zero. For a rule table whose score ranges are pairs it is the sum of
  metric score times (metric weight times group base weight) divided by the sum of
  (metric weight times group base weight), both over exactly the metrics that produced a
  score, and 0 when that divisor is 0; it comes with the dictionary of the scores and the
  list of the matched state names of those metrics. When no metric produced a score the
  result is 0 with an empty dictionary and an empty list; no reason is recorded.
\<close>

theorem timeframe_score_formula:
  "score_timeframe ip rb tf snap \<noteq> Inl ZeroDivisionError
   \<and> (wf_rulebook rb \<longrightarrow>
        score_timeframe ip rb tf snap =
          Inr (if (\<Sum>e\<leftarrow>producing ip snap tf rb.
                      (case metric_weight (snd e) of None \<Rightarrow> 1 | Some x \<Rightarrow> x)
                        * group_base_weight (groups rb) (metric_group (snd e))) = 0
               then 0
               else (\<Sum>e\<leftarrow>producing ip snap tf rb.
                       metric_score ip snap tf e
                         * ((case metric_weight (snd e) of None \<Rightarrow> 1 | Some x \<Rightarrow> x)
                             * group_base_weight (groups rb) (metric_group (snd e))))
                    / (\<Sum>e\<leftarrow>producing ip snap tf rb.
                         (case metric_weight (snd e) of None \<Rightarrow> 1 | Some x \<Rightarrow> x)
                           * group_base_weight (groups rb) (metric_group (snd e))),
               foldl (\<lambda>d e. dict_set d (fst e) (metric_score ip snap tf e)) [] (producing ip snap tf rb),
               concat (map (metric_state_names ip snap tf) (producing ip snap tf rb)))
        \<and> (producing ip snap tf rb = [] \<longrightarrow> score_timeframe ip rb tf snap = Inr (0, [], [])))"
proof -
  have a: "score_timeframe ip rb tf snap \<noteq> Inl ZeroDivisionError"
    using score_timeframe_error[of ip rb tf snap ZeroDivisionError] by auto
  have b: "score_timeframe ip rb tf snap =
          Inr (if (\<Sum>e\<leftarrow>producing ip snap tf rb.
                      (case metric_weight (snd e) of None \<Rightarrow> 1 | Some x \<Rightarrow> x)
                        * group_base_weight (groups rb) (metric_group (snd e))) = 0
               then 0
               else (\<Sum>e\<leftarrow>producing ip snap tf rb.
                       metric_score ip snap tf e
                         * ((case metric_weight (snd e) of None \<Rightarrow> 1 | Some x \<Rightarrow> x)
                             * group_base_weight (groups rb) (metric_group (snd e))))
                    / (\<Sum>e\<leftarrow>producing ip snap tf rb.
                         (case metric_weight (snd e) of None \<Rightarrow> 1 | Some x \<Rightarrow> x)
                           * group_base_weight (groups rb) (metric_group (snd e))),
               foldl (\<lambda>d e. dict_set d (fst e) (metric_score ip snap tf e)) [] (producing ip snap tf rb),
               concat (map (metric_state_names ip snap tf) (producing ip snap tf rb)))"
    if wf: "wf_rulebook rb"
  proof -
    from wf have "list_all wf_metric (metrics rb)" by (simp add: wf_rulebook_def)
    from contributing_formula[OF this, of ip "groups rb" tf snap]
    show ?thesis
      unfolding score_timeframe_closed producing_def
      by (simp add: scores_dict_map state_names_map weighted_total_map weight_total_map)
  qed
  have c: "score_timeframe ip rb tf snap = Inr (0, [], [])"
    if "wf_rulebook rb" "producing ip snap tf rb = []"
    using b[OF that(1)] that(2) by simp
  from a b c show ?thesis by blast
qed

theorem timeframe_score_formula_witness:
  "wf_rulebook example_rulebook
   \<and> score_timeframe example_interp example_rulebook ''MAJOR'' example_snapshot_high_roe
       = Inr (583 / 99, [(''PE_PB_VALUATION'', 5), (''ROE_QUALITY'', 7)],
              [''PE_PB_VALUATION.CHEAP'', ''PE_PB_VALUATION.FAIR'', ''ROE_QUALITY.HIGH''])
   \<and> score_timeframe example_interp example_rulebook ''MINOR'' example_snapshot_high_roe = Inr (0, [], [])"
proof -
  from timeframe_score_formula[of example_interp example_rulebook "''MAJOR''" example_snapshot_high_roe] wf_example
  have "score_timeframe example_interp example_rulebook ''MAJOR'' example_snapshot_high_roe =
          Inr (if (\<Sum>e\<leftarrow>producing example_interp example_snapshot_high_roe ''MAJOR'' example_rulebook.
                      (case metric_weight (snd e) of None \<Rightarrow> 1 | Some x \<Rightarrow> x)
                        * group_base_weight (groups example_rulebook) (metric_group (snd e))) = 0
               then 0
               else (\<Sum>e\<leftarrow>producing example_interp example_snapshot_high_roe ''MAJOR'' example_rulebook.
                       metric_score example_interp example_snapshot_high_roe ''MAJOR'' e
                         * ((case metric_weight (snd e) of None \<Rightarrow> 1 | Some x \<Rightarrow> x)
                             * group_base_weight (groups example_rulebook) (metric_group (snd e))))
                    / (\<Sum>e\<leftarrow>producing example_interp example_snapshot_high_roe ''MAJOR'' example_rulebook.
                         (case metric_weight (snd e) of None \<Rightarrow> 1 | Some x \<Rightarrow> x)
                           * group_base_weight (groups example_rulebook) (metric_group (snd e))),
               foldl (\<lambda>d e. dict_set d (fst e) (metric_score example_interp example_snapshot_high_roe ''MAJOR'' e)) []
                 (producing example_interp example_snapshot_high_roe ''MAJOR'' example_rulebook),
               concat (map (metric_state_names example_interp example_snapshot_high_roe ''MAJOR'')
                 (producing example_interp example_snapshot_high_roe ''MAJOR'' example_rulebook)))"
    by blast
  then have 1: "score_timeframe example_interp example_rulebook ''MAJOR'' example_snapshot_high_roe
       = Inr (583 / 99, [(''PE_PB_VALUATION'', 5), (''ROE_QUALITY'', 7)],
              [''PE_PB_VALUATION.CHEAP'', ''PE_PB_VALUATION.FAIR'', ''ROE_QUALITY.HIGH''])"
    unfolding producing_major
    by (simp add: ms_pe ms_roe names_pe names_roe weights_ex)
  from timeframe_score_formula[of example_interp example_rulebook "''MINOR''" example_snapshot_high_roe] wf_example producing_minor
  have 2: "score_timeframe example_interp example_rulebook ''MINOR'' example_snapshot_high_roe = Inr (0, [], [])"
    by blast
  from wf_example 1 2 show ?thesis by (intro conjI)
qed




end
